theory Spec2Isabelle
  imports Complex_Main
begin

section \<open>Tensors\<close>

text \<open>
  \<open>projected_gradient.py\<close> works on 4-dimensional torch tensors whose first dimension is
  the batch. A tensor is a 4-level nested list; the entries are idealised as reals (the
  rounding, the infinities and the NaNs of floating point are not modelled). Every
  operation below is one torch primitive that \<open>perturb\<close> applies; the operands of a
  binary operation are taken to have the shapes the source gives them, so that
  broadcasting along the batch dimension is a \<open>map2\<close>.
\<close>

type_synonym element = "real list list list"
type_synonym tensor = "element list"

text \<open>\<open>t.clamp(min=lo, max=hi)\<close>: a new tensor, \<open>min(max(x, lo), hi)\<close> entrywise.\<close>

definition clamp :: "real \<Rightarrow> real \<Rightarrow> tensor \<Rightarrow> tensor" where
  "clamp lo hi t = map (map (map (map (\<lambda>x. min (max x lo) hi)))) t"

text \<open>The sum of one batch element over channels, height and width.\<close>

definition total_mass :: "element \<Rightarrow> real" where
  "total_mass e = sum_list (map (\<lambda>c. sum_list (map sum_list c)) e)"

text \<open>\<open>t.sum(dim=(1, 2, 3), keepdim=True)\<close>: one number per batch element.\<close>

definition sum_dims_123 :: "tensor \<Rightarrow> real list" where
  "sum_dims_123 t = map total_mass t"

text \<open>
  \<open>t / n\<close> for \<open>n\<close> of shape \<open>(batch, 1, 1, 1)\<close>: every entry of batch element \<open>b\<close> is
  divided by \<open>n[b]\<close>. (Over the reals \<open>x / 0 = 0\<close>; torch gives \<open>inf\<close> or \<open>nan\<close> there and,
  like the model, does not raise.)
\<close>

definition broadcast_div :: "tensor \<Rightarrow> real list \<Rightarrow> tensor" where
  "broadcast_div t n = map2 (\<lambda>e d. map (map (map (\<lambda>x. x / d))) e) t n"

text \<open>\<open>p + a * g\<close> for two tensors of one shape and a scalar \<open>a\<close>.\<close>

definition add_scaled :: "tensor \<Rightarrow> real \<Rightarrow> tensor \<Rightarrow> tensor" where
  "add_scaled p a g = map2 (map2 (map2 (map2 (\<lambda>x d. x + a * d)))) p g"

text \<open>
  Modelled from the spec: \<open>tensor_norm\<close> (imported from \<open>utils\<close>) is not among the
  sources. With \<open>p='inf'\<close> it is the infinity norm of each batch element ("normalize by
  its infinity-norm per batch element"): the largest absolute value of its entries.
\<close>

definition tensor_norm_inf :: "tensor \<Rightarrow> real list" where
  "tensor_norm_inf t = map (\<lambda>e. foldr (\<lambda>x m. max \<bar>x\<bar> m) (concat (concat e)) 0) t"

section \<open>Errors\<close>

text \<open>
  The exceptions a call can end with. \<open>MalformedConfiguration\<close> is the rejection of the
  base class's constructor (modelled from the spec, see below); the other two are raised
  by the Python of \<open>perturb\<close> itself.
\<close>

datatype py_error = UnboundLocalError | ZeroDivisionError | MalformedConfiguration

section \<open>The attack object\<close>

text \<open>
  The fields of \<open>WassersteinAttack\<close> that \<open>ProjectedGradient\<close> reads or writes: those its
  constructor receives, the cost matrix and the two index maps that \<open>initialize_cost\<close>
  leaves on the object (\<open>None\<close> before), and the diagnostic counters. \<open>predict\<close> and
  \<open>loss_fn\<close> are kept with the collaborators below.
\<close>

record ('c, 'i) wasserstein_attack =
  eps :: real
  kernel_size :: int
  nb_iter :: int
  clip_min :: real
  clip_max :: real
  clipping :: bool
  postprocess :: bool
  verbose :: bool
  cost :: "'c option"
  forward_idx :: "'i option"
  backward_idx :: "'i option"
  run_time :: real
  num_iter :: int
  func_calls :: int
  lst_loss :: "real list"
  lst_acc :: "int list"

text \<open>\<open>class ProjectedGradient(WassersteinAttack)\<close>: the fields its constructor adds.\<close>

record ('c, 'i) projected_gradient = "('c, 'i) wasserstein_attack" +
  lr :: real
  dual_max_iter :: int
  grad_tol :: "real option"
  int_tol :: "real option"
  capacity_proj_mod :: int
  inf_cost :: int

text \<open>
  Modelled from the spec: \<open>WassersteinAttack.__init__\<close> (module \<open>wasserstein_attack\<close>) is
  not among the sources. The spec has a "malformed configuration (negative budget,
  non-positive kernel size) rejected at initialization", and the counters "reset at
  construction".
\<close>

definition WassersteinAttack_init ::
  "real \<Rightarrow> int \<Rightarrow> int \<Rightarrow> real \<Rightarrow> real \<Rightarrow> bool \<Rightarrow> bool \<Rightarrow> bool
    \<Rightarrow> py_error + ('c, 'i) wasserstein_attack" where
  "WassersteinAttack_init eps0 kernel_size0 nb_iter0 clip_min0 clip_max0
      clipping0 postprocess0 verbose0 =
    (if eps0 < 0 \<or> kernel_size0 \<le> 0 then Inl MalformedConfiguration
     else Inr \<lparr>eps = eps0, kernel_size = kernel_size0, nb_iter = nb_iter0,
            clip_min = clip_min0, clip_max = clip_max0, clipping = clipping0,
            postprocess = postprocess0, verbose = verbose0,
            cost = None, forward_idx = None, backward_idx = None,
            run_time = 0, num_iter = 0, func_calls = 0,
            lst_loss = [], lst_acc = []\<rparr>)"

text \<open>
  \<open>ProjectedGradient.__init__\<close> (lines 22-53): the base constructor runs first, and an
  exception of it ends the construction; then the six fields of the subclass are set
  (\<open>self.postprocess\<close> is assigned once more, and \<open>self.inf = 1000000\<close>).
\<close>

definition ProjectedGradient_init ::
  "real \<Rightarrow> int \<Rightarrow> real \<Rightarrow> int \<Rightarrow> int \<Rightarrow> real option \<Rightarrow> real option
    \<Rightarrow> real \<Rightarrow> real \<Rightarrow> bool \<Rightarrow> bool \<Rightarrow> bool \<Rightarrow> int
    \<Rightarrow> py_error + ('c, 'i) projected_gradient" where
  "ProjectedGradient_init eps0 kernel_size0 lr0 nb_iter0 dual_max_iter0 grad_tol0 int_tol0
      clip_min0 clip_max0 clipping0 postprocess0 verbose0 capacity_proj_mod0 =
    (case WassersteinAttack_init eps0 kernel_size0 nb_iter0 clip_min0 clip_max0
            clipping0 postprocess0 verbose0 of
       Inl e \<Rightarrow> Inl e
     | Inr base \<Rightarrow>
         Inr ((wasserstein_attack.extend base
                \<lparr>lr = lr0, dual_max_iter = dual_max_iter0,
                 grad_tol = grad_tol0, int_tol = int_tol0,
                 capacity_proj_mod = capacity_proj_mod0,
                 inf_cost = 1000000\<rparr>)\<lparr>postprocess := postprocess0\<rparr>))"

section \<open>Collaborators, the call log and the store\<close>

text \<open>
  What a collaborator hands back when the caller binds it to \<open>pi\<close>: a tensor with storage
  of its own, its first argument (the coupling it was given, possibly updated in place to
  the value carried), or its second argument (the image \<open>X\<close> itself).
\<close>

datatype returned = Fresh tensor | SameAsPi tensor | SameAsX

text \<open>
  Everything \<open>perturb\<close> calls that is not in \<open>projected_gradient.py\<close> is a parameter: the
  model under attack and the loss, autograd (\<open>backward f p\<close> is the gradient at \<open>p\<close> of the
  scalar function \<open>f\<close> of the coupling that the forward pass computed), the index torch
  returns for a row's maximum, the CUDA timer, the methods inherited from
  \<open>WassersteinAttack\<close> (they receive the base-class part of \<open>self\<close>), \<open>check_hypercube\<close>
  and the two projections. A collaborator reads the values of its arguments and, the
  projections apart (see \<open>returned\<close>), changes none of them. A check hands its verdict
  back to the caller.
\<close>

record ('c, 'i) collaborators =
  predict :: "tensor \<Rightarrow> real list list"
  loss_fn :: "real list list \<Rightarrow> int list \<Rightarrow> real"
  backward :: "(tensor \<Rightarrow> real) \<Rightarrow> tensor \<Rightarrow> tensor"
  argmax :: "real list \<Rightarrow> int"
  elapsed_time :: "nat \<Rightarrow> real"
  initialize_cost :: "('c, 'i) wasserstein_attack \<Rightarrow> tensor \<Rightarrow> int \<Rightarrow> 'c \<times> 'i \<times> 'i"
  initialize_coupling :: "('c, 'i) wasserstein_attack \<Rightarrow> tensor \<Rightarrow> tensor"
  coupling2adversarial :: "('c, 'i) wasserstein_attack \<Rightarrow> tensor \<Rightarrow> tensor \<Rightarrow> tensor"
  check_hypercube :: "tensor \<Rightarrow> real option \<Rightarrow> bool \<Rightarrow> bool"
  check_nonnegativity :: "('c, 'i) wasserstein_attack \<Rightarrow> tensor \<Rightarrow> real \<Rightarrow> bool \<Rightarrow> bool"
  check_marginal_constraint ::
    "('c, 'i) wasserstein_attack \<Rightarrow> tensor \<Rightarrow> tensor \<Rightarrow> real \<Rightarrow> bool \<Rightarrow> bool"
  check_transport_cost :: "('c, 'i) wasserstein_attack \<Rightarrow> tensor \<Rightarrow> real \<Rightarrow> bool \<Rightarrow> bool"
  dual_projection ::
    "tensor \<Rightarrow> tensor \<Rightarrow> 'c option \<Rightarrow> real list \<Rightarrow> int \<Rightarrow> real option \<Rightarrow> real option
      \<Rightarrow> returned \<times> int"
  dual_capacity_constrained_projection ::
    "tensor \<Rightarrow> tensor \<Rightarrow> 'c option \<Rightarrow> real list \<Rightarrow> 'i option \<Rightarrow> 'i option
      \<Rightarrow> (tensor \<Rightarrow> tensor \<Rightarrow> tensor) \<Rightarrow> returned"

text \<open>
  The log of the calls \<open>perturb\<close> makes, each with the values of its arguments in the
  order of the source (a check also with the verdict it handed back; the default
  tolerance of \<open>check_hypercube\<close> is \<open>None\<close>), and of the lines it prints.
\<close>

datatype ('c, 'i) event =
    InitializeCost tensor int
  | InitializeCoupling tensor
  | Coupling2Adversarial tensor tensor
  | Predict tensor
  | LossFn "real list list" "int list"
  | DualProjection tensor tensor "'c option" "real list" int "real option" "real option"
  | CapacityProjection tensor tensor "'c option" "real list" "'i option" "'i option"
  | CheckHypercube tensor "real option" bool bool
  | CheckNonnegativity tensor real bool bool
  | CheckMarginalConstraint tensor tensor real bool bool
  | CheckTransportCost tensor real bool bool
  | PrintProgress int real real int real
  | PrintPostProcessing

text \<open>
  Tensors that are updated in place, or that may share their storage with another, live
  in a store: an address is an index into the list of cells. \<open>perturb\<close> runs in a world
  made of the store, the attack object and the log.
\<close>

type_synonym addr = nat
type_synonym store = "tensor list"

record ('c, 'i) world =
  heap :: store
  self :: "('c, 'i) projected_gradient"
  trace :: "('c, 'i) event list"

type_synonym ('c, 'i) raised = "py_error \<times> ('c, 'i) world"

text \<open>New storage (\<open>clone()\<close>, a gradient buffer, a returned tensor of its own).\<close>

definition alloc :: "store \<Rightarrow> tensor \<Rightarrow> store \<times> addr" where
  "alloc h v = (h @ [v], length h)"

text \<open>Binding \<open>pi\<close> to what a projection returned, given the addresses of \<open>pi\<close> and \<open>X\<close>.\<close>

fun place :: "store \<Rightarrow> addr \<Rightarrow> addr \<Rightarrow> returned \<Rightarrow> store \<times> addr" where
  "place h pa xa (Fresh v) = alloc h v"
| "place h pa xa (SameAsPi v) = (h[pa := v], pa)"
| "place h pa xa SameAsX = (h, xa)"

definition emit :: "('c, 'i) event list \<Rightarrow> ('c, 'i) world \<Rightarrow> ('c, 'i) world" where
  "emit evs w = w\<lparr>trace := trace w @ evs\<rparr>"

section \<open>\<open>ProjectedGradient.perturb\<close>\<close>

text \<open>
  Lines 63-78, the gradient step of one outer iteration. \<open>xa\<close> and \<open>pa\<close> are the addresses
  the locals \<open>X\<close> and \<open>pi\<close> hold. The decode of the coupling is clamped and scored; the
  loss and the number of correct predictions are appended to the lists of the object;
  \<open>loss.backward()\<close> leaves the gradient of the loss, as a function of the coupling, in
  new storage (\<open>pi.grad\<close>); the gradient is divided in place by its norm plus \<open>1e-8\<close> and
  the coupling is advanced in place by \<open>lr\<close> times it. The scores and the loss are handed
  on (the progress line prints them).
\<close>

definition gradient_step ::
  "('c, 'i) collaborators \<Rightarrow> addr \<Rightarrow> int list \<Rightarrow> ('c, 'i) world \<Rightarrow> addr
    \<Rightarrow> ('c, 'i) world \<times> real list list \<times> real" where
  "gradient_step env xa y w pa =
    (let s = self w;
         base = wasserstein_attack.truncate s;
         X = heap w ! xa;
         p = heap w ! pa;
         adv_example = coupling2adversarial env base p X;
         shown = clamp (clip_min s) (clip_max s) adv_example;
         scores = predict env shown;
         loss = loss_fn env scores y;
         grad = backward env
                  (\<lambda>q. loss_fn env
                         (predict env
                           (clamp (clip_min s) (clip_max s)
                             (coupling2adversarial env base q X))) y) p;
         acc = int (length (filter (\<lambda>(row, label). argmax env row = label) (zip scores y)));
         s1 = s\<lparr>lst_loss := lst_loss s @ [loss], lst_acc := lst_acc s @ [acc]\<rparr>;
         (h1, ga) = alloc (heap w) grad;
         h2 = h1[ga := broadcast_div (h1 ! ga)
                         (map (\<lambda>n. n + 1 / 10 ^ 8) (tensor_norm_inf (h1 ! ga)))];
         h3 = h2[pa := add_scaled (h2 ! pa) (lr s) (h2 ! ga)]
     in (w\<lparr>heap := h3, self := s1,
           trace := trace w @ [Coupling2Adversarial p X, Predict shown, LossFn scores y]\<rparr>,
         scores, loss))"

text \<open>
  Lines 85-102, the projection of iteration \<open>t\<close>. \<open>nl\<close> is the local \<open>num_iter\<close>, \<open>None\<close>
  while it is unbound. The source has an \<open>if\<close> and an \<open>elif\<close> and no \<open>else\<close>: when neither
  condition holds, nothing is projected and \<open>num_iter\<close> keeps what it had. The \<open>elif\<close>
  computes \<open>(t + 1) % self.capacity_proj_mod\<close>, which raises for a modulus of 0. Both
  calls are handed \<open>self.eps * normalization.squeeze()\<close> as \<open>eps\<close>.
\<close>

definition project ::
  "('c, 'i) collaborators \<Rightarrow> addr \<Rightarrow> real list \<Rightarrow> nat \<Rightarrow> ('c, 'i) world \<Rightarrow> addr \<Rightarrow> int option
    \<Rightarrow> ('c, 'i) raised + ('c, 'i) world \<times> addr \<times> int option" where
  "project env xa normalization t w pa nl =
    (let s = self w;
         X = heap w ! xa;
         p = heap w ! pa;
         budget = map (\<lambda>m. eps s * m) normalization
     in if capacity_proj_mod s = - 1 then
          (case dual_projection env p X (cost s) budget
                  (dual_max_iter s) (grad_tol s) (int_tol s) of
             (r, n) \<Rightarrow>
               (case place (heap w) pa xa r of
                  (h, pa') \<Rightarrow>
                    Inr (w\<lparr>heap := h,
                           trace := trace w @
                             [DualProjection p X (cost s) budget
                                (dual_max_iter s) (grad_tol s) (int_tol s)]\<rparr>,
                         pa', Some n)))
        else if capacity_proj_mod s = 0 then Inl (ZeroDivisionError, w)
        else if (int t + 1) mod capacity_proj_mod s = 0 then
          (case place (heap w) pa xa
                  (dual_capacity_constrained_projection env p X (cost s) budget
                    (forward_idx s) (backward_idx s)
                    (coupling2adversarial env (wasserstein_attack.truncate s))) of
             (h, pa') \<Rightarrow>
               Inr (w\<lparr>heap := h,
                      trace := trace w @
                        [CapacityProjection p X (cost s) budget
                           (forward_idx s) (backward_idx s)]\<rparr>,
                    pa', Some 3000))
        else Inr (w, pa, nl))"

text \<open>
  Lines 108-110: the measured time is added to \<open>run_time\<close>; then \<open>self.num_iter +=
  num_iter\<close> reads the local, which raises while it is unbound; then \<open>func_calls\<close> is
  incremented. The value read is handed on.
\<close>

definition account ::
  "('c, 'i) collaborators \<Rightarrow> nat \<Rightarrow> ('c, 'i) world \<Rightarrow> int option
    \<Rightarrow> ('c, 'i) raised + ('c, 'i) world \<times> int" where
  "account env t w nl =
    (let w1 = w\<lparr>self := (self w)\<lparr>run_time := run_time (self w) + elapsed_time env t\<rparr>\<rparr>
     in case nl of
          None \<Rightarrow> Inl (UnboundLocalError, w1)
        | Some n \<Rightarrow>
            Inr (w1\<lparr>self := (self w1)\<lparr>num_iter := num_iter (self w1) + n,
                                      func_calls := func_calls (self w1) + 1\<rparr>\<rparr>, n))"

text \<open>
  Lines 112-117, the progress line of every tenth iteration of a verbose attack. Its
  arguments divide the number of correct predictions by \<open>batch_size\<close> and the measured
  time by \<open>num_iter\<close>, two Python divisions that raise on 0.
\<close>

definition report ::
  "('c, 'i) collaborators \<Rightarrow> nat \<Rightarrow> nat \<Rightarrow> real list list \<Rightarrow> int list \<Rightarrow> real \<Rightarrow> int
    \<Rightarrow> ('c, 'i) world \<Rightarrow> ('c, 'i) raised + ('c, 'i) world" where
  "report env batch_size t scores y loss n w =
    (if verbose (self w) \<and> (int t + 1) mod 10 = 0 then
       if batch_size = 0 then Inl (ZeroDivisionError, w)
       else if n = 0 then Inl (ZeroDivisionError, w)
       else Inr (emit
              [PrintProgress (int t + 1) loss
                 (real (length (filter (\<lambda>(row, label). argmax env row = label)
                                  (zip scores y))) / real batch_size * 100)
                 n (elapsed_time env t / real_of_int n)] w)
     else Inr w)"

text \<open>
  The three checks of the normalized coupling, as lines 119-121, 128-130 and 147-149
  call them: the tolerances and the verbosity differ from place to place. What a check
  hands back is dropped by the source; the log keeps it.
\<close>

definition constraint_checks ::
  "('c, 'i) collaborators \<Rightarrow> addr \<Rightarrow> real list \<Rightarrow> real \<Rightarrow> real \<Rightarrow> real \<Rightarrow> bool
    \<Rightarrow> ('c, 'i) world \<Rightarrow> addr \<Rightarrow> ('c, 'i) world" where
  "constraint_checks env xa normalization tol_nonneg tol_marginal tol_cost v w pa =
    (let base = wasserstein_attack.truncate (self w);
         q = broadcast_div (heap w ! pa) normalization;
         x = broadcast_div (heap w ! xa) normalization
     in emit
          [CheckNonnegativity q tol_nonneg v (check_nonnegativity env base q tol_nonneg v),
           CheckMarginalConstraint q x tol_marginal v
             (check_marginal_constraint env base q x tol_marginal v),
           CheckTransportCost q tol_cost v (check_transport_cost env base q tol_cost v)] w)"

text \<open>
  One outer iteration, lines 63-123. After the checks \<open>pi\<close> is rebound to a clone of
  itself (line 123).
\<close>

definition iteration ::
  "('c, 'i) collaborators \<Rightarrow> addr \<Rightarrow> int list \<Rightarrow> real list \<Rightarrow> nat \<Rightarrow> nat
    \<Rightarrow> ('c, 'i) world \<Rightarrow> addr \<Rightarrow> int option
    \<Rightarrow> ('c, 'i) raised + ('c, 'i) world \<times> addr \<times> int option" where
  "iteration env xa y normalization batch_size t w pa nl =
    (case gradient_step env xa y w pa of
       (w1, scores, loss) \<Rightarrow>
         (case project env xa normalization t w1 pa nl of
            Inl e \<Rightarrow> Inl e
          | Inr (w2, pa2, nl2) \<Rightarrow>
              (case account env t w2 nl2 of
                 Inl e \<Rightarrow> Inl e
               | Inr (w3, n) \<Rightarrow>
                   (case report env batch_size t scores y loss n w3 of
                      Inl e \<Rightarrow> Inl e
                    | Inr w4 \<Rightarrow>
                        (let w5 = constraint_checks env xa normalization
                                    (1 / 10 ^ 6) (1 / 10 ^ 6) (1 / 10 ^ 3) False w4 pa2
                         in case alloc (heap w5) (heap w5 ! pa2) of
                              (h, pa3) \<Rightarrow> Inr (w5\<lparr>heap := h\<rparr>, pa3, nl2))))))"

text \<open>\<open>for t in range(self.nb_iter)\<close>, over the values \<open>t\<close> takes.\<close>

fun loop ::
  "('c, 'i) collaborators \<Rightarrow> addr \<Rightarrow> int list \<Rightarrow> real list \<Rightarrow> nat \<Rightarrow> nat list
    \<Rightarrow> ('c, 'i) world \<Rightarrow> addr \<Rightarrow> int option
    \<Rightarrow> ('c, 'i) raised + ('c, 'i) world \<times> addr \<times> int option" where
  "loop env xa y normalization batch_size [] w pa nl = Inr (w, pa, nl)"
| "loop env xa y normalization batch_size (t # ts) w pa nl =
    (case iteration env xa y normalization batch_size t w pa nl of
       Inl e \<Rightarrow> Inl e
     | Inr (w', pa', nl') \<Rightarrow> loop env xa y normalization batch_size ts w' pa' nl')"

text \<open>
  Lines 132-149, the optional last pass: the capacity-constrained projection, the decode
  of what it returned, and the four checks.
\<close>

definition post_processing ::
  "('c, 'i) collaborators \<Rightarrow> addr \<Rightarrow> real list \<Rightarrow> ('c, 'i) world \<Rightarrow> addr
    \<Rightarrow> ('c, 'i) world \<times> addr \<times> tensor" where
  "post_processing env xa normalization w pa =
    (let s = self w;
         base = wasserstein_attack.truncate s;
         X = heap w ! xa;
         p = heap w ! pa;
         budget = map (\<lambda>m. eps s * m) normalization;
         w1 = (if verbose s then emit [PrintPostProcessing] w else w)
     in case place (heap w1) pa xa
               (dual_capacity_constrained_projection env p X (cost s) budget
                 (forward_idx s) (backward_idx s) (coupling2adversarial env base)) of
          (h, pa') \<Rightarrow>
            (let adv_example = coupling2adversarial env base (h ! pa') (h ! xa);
                 w2 = emit
                        [CapacityProjection p X (cost s) budget
                           (forward_idx s) (backward_idx s),
                         Coupling2Adversarial (h ! pa') (h ! xa),
                         CheckHypercube adv_example (Some (eps s * (5 / 10 ^ 2))) (verbose s)
                           (check_hypercube env adv_example
                              (Some (eps s * (5 / 10 ^ 2))) (verbose s))]
                        (w1\<lparr>heap := h\<rparr>)
             in (constraint_checks env xa normalization
                   (1 / 10 ^ 6) (1 / 10 ^ 6) (eps s * (1 / 10 ^ 3)) (verbose s) w2 pa',
                 pa', adv_example)))"

text \<open>
  Lines 125-130, after the loop: the decode of the coupling the loop left, unclamped, is
  handed to \<open>check_hypercube\<close> with its default tolerance, and the three checks are
  repeated.
\<close>

definition final_check ::
  "('c, 'i) collaborators \<Rightarrow> addr \<Rightarrow> real list \<Rightarrow> ('c, 'i) world \<Rightarrow> addr
    \<Rightarrow> ('c, 'i) world \<times> tensor" where
  "final_check env xa normalization w pa =
    (let s = self w;
         base = wasserstein_attack.truncate s;
         adv_example = coupling2adversarial env base (heap w ! pa) (heap w ! xa);
         w1 = emit
                [Coupling2Adversarial (heap w ! pa) (heap w ! xa),
                 CheckHypercube adv_example None (verbose s)
                   (check_hypercube env adv_example None (verbose s))] w
     in (constraint_checks env xa normalization
           (1 / 10 ^ 5) (1 / 10 ^ 5) (eps s * (1 / 10 ^ 3)) (verbose s) w1 pa,
         adv_example))"

text \<open>
  Lines 125-154: the final checks, the optional last pass, and the result, clamped when
  \<open>self.clipping\<close> is set. Beside the image the model hands back the world and the address
  \<open>pi\<close> holds at the \<open>return\<close>.
\<close>

definition finish ::
  "('c, 'i) collaborators \<Rightarrow> addr \<Rightarrow> real list \<Rightarrow> ('c, 'i) world \<Rightarrow> addr
    \<Rightarrow> tensor \<times> ('c, 'i) world \<times> addr" where
  "finish env xa normalization w pa =
    (case final_check env xa normalization w pa of
       (w2, adv_example) \<Rightarrow>
         (case (if postprocess (self w2) then post_processing env xa normalization w2 pa
                else (w2, pa, adv_example)) of
            (w3, pa3, adv_example3) \<Rightarrow>
              (if clipping (self w3)
               then clamp (clip_min (self w3)) (clip_max (self w3)) adv_example3
               else adv_example3,
               w3, pa3)))"

text \<open>
  \<open>perturb(self, X, y)\<close>, lines 55-154, for \<open>X\<close> at address \<open>xa\<close>. \<open>initialize_cost\<close> leaves
  the cost matrix and the index maps on the object; the coupling starts as a clone of
  what \<open>initialize_coupling\<close> returns; \<open>normalization\<close> is computed once, before the loop;
  \<open>num_iter\<close> is unbound when the loop starts.
\<close>

definition perturb ::
  "('c, 'i) collaborators \<Rightarrow> ('c, 'i) world \<Rightarrow> addr \<Rightarrow> int list
    \<Rightarrow> ('c, 'i) raised + tensor \<times> ('c, 'i) world \<times> addr" where
  "perturb env w xa y =
    (let X = heap w ! xa;
         batch_size = length X;
         s = self w;
         (c, f, b) = initialize_cost env (wasserstein_attack.truncate s) X (inf_cost s);
         s1 = s\<lparr>cost := Some c, forward_idx := Some f, backward_idx := Some b\<rparr>;
         (h1, pa) = alloc (heap w)
                      (initialize_coupling env (wasserstein_attack.truncate s1) X);
         normalization = sum_dims_123 (h1 ! xa);
         w1 = \<lparr>heap = h1, self = s1,
               trace = trace w @ [InitializeCost X (inf_cost s), InitializeCoupling X]\<rparr>
     in case loop env xa y normalization batch_size [0..<nat (nb_iter s1)] w1 pa None of
          Inl e \<Rightarrow> Inl e
        | Inr (w2, pa2, nl) \<Rightarrow> Inr (finish env xa normalization w2 pa2))"

section \<open>Observations on a run\<close>

text \<open>The world a run ends in, whether it raised or returned.\<close>

fun final_world :: "('c, 'i) raised + tensor \<times> ('c, 'i) world \<times> addr \<Rightarrow> ('c, 'i) world" where
  "final_world (Inl (e, w)) = w"
| "final_world (Inr (img, w, pa)) = w"

fun raised_error :: "('c, 'i) raised + 'a \<Rightarrow> py_error option" where
  "raised_error (Inl (e, w)) = Some e"
| "raised_error (Inr r) = None"

text \<open>The part of the log written between two worlds.\<close>

definition new_events :: "('c, 'i) world \<Rightarrow> ('c, 'i) world \<Rightarrow> ('c, 'i) event list" where
  "new_events w w' = drop (length (trace w)) (trace w')"

fun is_projection :: "('c, 'i) event \<Rightarrow> bool" where
  "is_projection (DualProjection p x c b m g i) = True"
| "is_projection (CapacityProjection p x c b f d) = True"
| "is_projection ev = False"

fun is_predict :: "('c, 'i) event \<Rightarrow> bool" where
  "is_predict (Predict a) = True"
| "is_predict ev = False"

fun is_check :: "('c, 'i) event \<Rightarrow> bool" where
  "is_check (CheckHypercube a tol v r) = True"
| "is_check (CheckNonnegativity q tol v r) = True"
| "is_check (CheckMarginalConstraint q x tol v r) = True"
| "is_check (CheckTransportCost q tol v r) = True"
| "is_check ev = False"

text \<open>The tensor \<open>pi\<close> is bound to after a projection of coupling \<open>p\<close> and image \<open>X\<close>.\<close>

fun returned_value :: "tensor \<Rightarrow> returned \<Rightarrow> tensor" where
  "returned_value X (Fresh v) = v"
| "returned_value X (SameAsPi v) = v"
| "returned_value X SameAsX = X"

text \<open>
  The object up to its diagnostic counters and to what \<open>initialize_cost\<close> leaves on it:
  the configuration of the attack.
\<close>

definition settings :: "('c, 'i) projected_gradient \<Rightarrow> ('c, 'i) projected_gradient" where
  "settings s = s\<lparr>cost := None, forward_idx := None, backward_idx := None,
                  run_time := 0, num_iter := 0, func_calls := 0,
                  lst_loss := [], lst_acc := []\<rparr>"

text \<open>
  What a logged call says about the image \<open>X\<close> and the budget \<open>e\<close>: a collaborator that
  takes the image is given \<open>X\<close>; a projection is given, for each batch element, \<open>e\<close>
  times the total mass of that element of \<open>X\<close>; the marginal check is given \<open>X\<close> divided,
  element by element, by that total mass.
\<close>

fun from_image :: "tensor \<Rightarrow> real \<Rightarrow> ('c, 'i) event \<Rightarrow> bool" where
  "from_image X e (InitializeCost x n) = (x = X)"
| "from_image X e (InitializeCoupling x) = (x = X)"
| "from_image X e (Coupling2Adversarial p x) = (x = X)"
| "from_image X e (DualProjection p x c b m g i) =
     (x = X \<and> b = map (\<lambda>el. e * total_mass el) X)"
| "from_image X e (CapacityProjection p x c b f d) =
     (x = X \<and> b = map (\<lambda>el. e * total_mass el) X)"
| "from_image X e (CheckMarginalConstraint q x tol v r) =
     (x = broadcast_div X (map total_mass X))"
| "from_image X e ev = True"

text \<open>The image a logged call was given, when it takes the image itself.\<close>

fun image_argument :: "('c, 'i) event \<Rightarrow> tensor option" where
  "image_argument (InitializeCost x n) = Some x"
| "image_argument (InitializeCoupling x) = Some x"
| "image_argument (Coupling2Adversarial p x) = Some x"
| "image_argument (DualProjection p x c b m g i) = Some x"
| "image_argument (CapacityProjection p x c b f d) = Some x"
| "image_argument ev = None"





text \<open>
  How a later world \<open>w'\<close> stands to an earlier one \<open>w\<close> of the same call, for the image
  \<open>X\<close> and the budget \<open>e\<close>: the first \<open>n0\<close> cells of the store are what they were, the
  store has not shrunk, the configuration of the object is the same, the log has only
  grown, and what was logged in between agrees with \<open>X\<close> and \<open>e\<close>.
\<close>

definition keeps_image ::
  "nat \<Rightarrow> tensor \<Rightarrow> real \<Rightarrow> ('c, 'i) world \<Rightarrow> ('c, 'i) world \<Rightarrow> bool" where
  "keeps_image n0 X e w w' \<longleftrightarrow>
     take n0 (heap w') = take n0 (heap w) \<and>
     length (heap w) \<le> length (heap w') \<and>
     settings (self w') = settings (self w) \<and>
     take (length (trace w)) (trace w') = trace w \<and>
     list_all (from_image X e) (new_events w w')"



text \<open>A logged call that takes the image was given \<open>X\<close>.\<close>

fun given_image :: "tensor \<Rightarrow> ('c, 'i) event \<Rightarrow> bool" where
  "given_image X ev = (case image_argument ev of None \<Rightarrow> True | Some x \<Rightarrow> x = X)"



text \<open>The three entries the log gets from one round of checks.\<close>

definition logged_checks ::
  "('c, 'i) collaborators \<Rightarrow> ('c, 'i) wasserstein_attack \<Rightarrow> tensor \<Rightarrow> tensor
    \<Rightarrow> real \<Rightarrow> real \<Rightarrow> real \<Rightarrow> bool \<Rightarrow> ('c, 'i) event list" where
  "logged_checks env base q x tol_nonneg tol_marginal tol_cost v =
     [CheckNonnegativity q tol_nonneg v (check_nonnegativity env base q tol_nonneg v),
      CheckMarginalConstraint q x tol_marginal v
        (check_marginal_constraint env base q x tol_marginal v),
      CheckTransportCost q tol_cost v (check_transport_cost env base q tol_cost v)]"


section \<open>A concrete setting\<close>

text \<open>
  Collaborators small enough to run: a batch of one image of one channel and \<open>1 \<times> 2\<close>
  pixels, a coupling of the image's shape that decodes to itself, a constant gradient, a
  budget-only projection that clamps into \<open>[0, 3]\<close> and reports 7 inner iterations, and a
  capacity-constrained projection that hands back the image itself.
\<close>

definition demo_env :: "(nat, nat) collaborators" where
  "demo_env =
    \<lparr>predict = (\<lambda>t. map (\<lambda>e. [total_mass e, 0]) t),
     loss_fn = (\<lambda>scores y. sum_list (map sum_list scores)),
     backward = (\<lambda>f p. map (map (map (map (\<lambda>x. 1)))) p),
     argmax = (\<lambda>row. 0),
     elapsed_time = (\<lambda>t. 2),
     initialize_cost = (\<lambda>s X n. (1, 2, 3)),
     initialize_coupling = (\<lambda>s X. X),
     coupling2adversarial = (\<lambda>s p X. p),
     check_hypercube = (\<lambda>a tol v. True),
     check_nonnegativity = (\<lambda>s q tol v. True),
     check_marginal_constraint = (\<lambda>s q x tol v. True),
     check_transport_cost = (\<lambda>s q tol v. True),
     dual_projection = (\<lambda>p X c b m g i. (Fresh (clamp 0 3 p), 7)),
     dual_capacity_constrained_projection = (\<lambda>p X c b f d decode. SameAsX)\<rparr>"

definition demo_self :: "int \<Rightarrow> int \<Rightarrow> bool \<Rightarrow> bool \<Rightarrow> (nat, nat) projected_gradient" where
  "demo_self n m post clip =
    \<lparr>eps = 1 / 2, kernel_size = 3, nb_iter = n, clip_min = 0, clip_max = 1,
     clipping = clip, postprocess = post, verbose = False,
     cost = None, forward_idx = None, backward_idx = None,
     run_time = 0, num_iter = 0, func_calls = 0, lst_loss = [], lst_acc = [],
     lr = 1 / 10, dual_max_iter = 15,
     grad_tol = Some (1 / 10 ^ 4), int_tol = Some (1 / 10 ^ 4),
     capacity_proj_mod = m, inf_cost = 1000000\<rparr>"

definition demo_world :: "int \<Rightarrow> int \<Rightarrow> bool \<Rightarrow> bool \<Rightarrow> (nat, nat) world" where
  "demo_world n m post clip =
    \<lparr>heap = [[[[[1, 3]]]]], self = demo_self n m post clip, trace = []\<rparr>"

text \<open>
  A world inside the loop: the image at address 0 and the coupling, a clone of what
  \<open>initialize_coupling\<close> returned, at address 1.
\<close>

definition demo_loop_world :: "bool \<Rightarrow> bool \<Rightarrow> (nat, nat) world" where
  "demo_loop_world post clip =
     (demo_world 1 (- 1) post clip)\<lparr>heap := [[[[[1, 3]]]], [[[[1, 3]]]]]\<rparr>"

text \<open>The same world for an attack that takes the capacity branch in every iteration.\<close>

definition demo_capacity_world :: "(nat, nat) world" where
  "demo_capacity_world =
     (demo_world 1 1 False False)\<lparr>heap := [[[[[1, 3]]]], [[[[1, 3]]]]]\<rparr>"

section \<open>Evaluation and arithmetic helpers\<close>

lemmas demo_defs = demo_env_def demo_world_def demo_self_def

lemmas demo_loop_defs = demo_loop_world_def demo_world_def demo_self_def demo_env_def

lemmas perturb_defs = perturb_def iteration_def gradient_step_def project_def account_def
  report_def constraint_checks_def post_processing_def final_check_def finish_def emit_def
  alloc_def
  sum_dims_123_def total_mass_def broadcast_div_def add_scaled_def tensor_norm_inf_def
  clamp_def new_events_def Let_def wasserstein_attack.defs

lemma one_mod_int: "(1::int) mod m = 0 \<longleftrightarrow> m = 1 \<or> m = - 1"
proof
  assume "(1::int) mod m = 0"
  then have "m dvd 1" by (simp add: dvd_eq_mod_eq_0)
  then have "\<bar>m\<bar> = 1" by simp
  then show "m = 1 \<or> m = - 1" by linarith
next
  assume "m = 1 \<or> m = - 1"
  then show "(1::int) mod m = 0" by auto
qed

lemma first_iteration: "1 \<le> n \<Longrightarrow> [0..<nat n] = 0 # [1..<nat n]"
  by (simp add: upt_conv_Cons)

section \<open>The constructor\<close>

text \<open>
  C9. A negative \<open>eps\<close> or a non-positive \<open>kernel_size\<close> is rejected at initialization:
  the constructor of \<open>ProjectedGradient\<close> ends with the error of the base constructor. The
  subclass checks nothing itself (see \<open>ProjectedGradient_init_accepts\<close>); the rejection is
  that of \<open>WassersteinAttack.__init__\<close>, which is modelled from the spec.
\<close>

theorem ProjectedGradient_init_rejects:
  assumes "eps0 < 0 \<or> kernel_size0 \<le> 0"
  shows "ProjectedGradient_init eps0 kernel_size0 lr0 nb_iter0 dual_max_iter0 grad_tol0
           int_tol0 clip_min0 clip_max0 clipping0 postprocess0 verbose0 capacity_proj_mod0 =
         Inl MalformedConfiguration"
proof (cases "eps0 < 0")
  case True
  then show ?thesis
    by (simp add: ProjectedGradient_init_def WassersteinAttack_init_def)
next
  case False
  with assms have "kernel_size0 \<le> 0" by simp
  then show ?thesis
    by (simp add: ProjectedGradient_init_def WassersteinAttack_init_def)
qed

text \<open>A budget of \<open>-1\<close>, and a kernel size of 0, are both refused.\<close>

theorem ProjectedGradient_init_rejects_witness:
  "(- 1 :: real) < 0 \<and>
   (ProjectedGradient_init (- 1) 3 (1 / 10) 10 15 None None 0 1 False False True (- 1)
      :: py_error + (nat, nat) projected_gradient) = Inl MalformedConfiguration \<and>
   (ProjectedGradient_init (1 / 2) 0 (1 / 10) 10 15 None None 0 1 False False True (- 1)
      :: py_error + (nat, nat) projected_gradient) = Inl MalformedConfiguration"
  using ProjectedGradient_init_rejects
          [of "- 1" 3 "1 / 10" 10 15 None None 0 1 False False True "- 1"]
        ProjectedGradient_init_rejects
          [of "1 / 2" 0 "1 / 10" 10 15 None None 0 1 False False True "- 1"]
  by simp

text \<open>
  Every other configuration is accepted, whatever the remaining arguments are: the lines
  of the subclass add its fields and check nothing.
\<close>

lemma ProjectedGradient_init_accepts:
  assumes "0 \<le> eps0" and "0 < kernel_size0"
  shows "\<exists>s. ProjectedGradient_init eps0 kernel_size0 lr0 nb_iter0 dual_max_iter0 grad_tol0
           int_tol0 clip_min0 clip_max0 clipping0 postprocess0 verbose0 capacity_proj_mod0 =
         Inr s \<and> eps s = eps0 \<and> kernel_size s = kernel_size0 \<and>
         capacity_proj_mod s = capacity_proj_mod0 \<and> lr s = lr0 \<and>
         func_calls s = 0 \<and> num_iter s = 0 \<and> inf_cost s = 1000000"
  using assms
  by (auto simp: ProjectedGradient_init_def WassersteinAttack_init_def wasserstein_attack.defs)

section \<open>The projection branch and the unbound \<open>num_iter\<close>\<close>

text \<open>
  C2, as the code has it. For \<open>nb_iter \<ge> 1\<close> and a \<open>capacity_proj_mod\<close> other than \<open>-1\<close>
  and \<open>1\<close>, the call does not return: its first iteration (\<open>func_calls\<close> is still what it
  was) calls no projection and raises. The exception is the unbound local \<open>num_iter\<close> read
  at \<open>self.num_iter += num_iter\<close>, except for a \<open>capacity_proj_mod\<close> of 0, where the
  modulo of the \<open>elif\<close> has raised \<open>ZeroDivisionError\<close> before.
\<close>

theorem perturb_first_iteration_raises:
  assumes "1 \<le> nb_iter (self w)"
    and "capacity_proj_mod (self w) \<noteq> - 1"
    and "capacity_proj_mod (self w) \<noteq> 1"
  shows "raised_error (perturb env w xa y) =
           Some (if capacity_proj_mod (self w) = 0 then ZeroDivisionError
                 else UnboundLocalError) \<and>
         filter is_projection (new_events w (final_world (perturb env w xa y))) = [] \<and>
         func_calls (self (final_world (perturb env w xa y))) = func_calls (self w)"
  using assms
  by (simp add: perturb_def first_iteration iteration_def gradient_step_def project_def
      account_def Let_def alloc_def one_mod_int new_events_def split: prod.splits)

text \<open>One iteration with a period of 2.\<close>

theorem perturb_first_iteration_raises_witness:
  "1 \<le> nb_iter (self (demo_world 1 2 False False)) \<and>
   capacity_proj_mod (self (demo_world 1 2 False False)) \<noteq> - 1 \<and>
   capacity_proj_mod (self (demo_world 1 2 False False)) \<noteq> 1 \<and>
   raised_error (perturb demo_env (demo_world 1 2 False False) 0 [0]) =
     Some UnboundLocalError \<and>
   filter is_projection
     (new_events (demo_world 1 2 False False)
       (final_world (perturb demo_env (demo_world 1 2 False False) 0 [0]))) = [] \<and>
   func_calls (self (final_world (perturb demo_env (demo_world 1 2 False False) 0 [0]))) = 0"
  using perturb_first_iteration_raises [of "demo_world 1 2 False False" demo_env 0 "[0]"]
  by (simp add: demo_world_def demo_self_def)

text \<open>
  With \<open>capacity_proj_mod = 0\<close> and one iteration the exception is not the unbound local:
  \<open>(t + 1) % 0\<close> raises first.
\<close>

theorem perturb_modulus_zero_counterexample:
  "1 \<le> nb_iter (self (demo_world 1 0 False False)) \<and>
   capacity_proj_mod (self (demo_world 1 0 False False)) \<notin> {- 1, 1} \<and>
   raised_error (perturb demo_env (demo_world 1 0 False False) 0 [0]) =
     Some ZeroDivisionError \<and>
   raised_error (perturb demo_env (demo_world 1 0 False False) 0 [0]) \<noteq>
     Some UnboundLocalError"
  by (simp add: demo_defs perturb_defs)

text \<open>
  C1, at \<open>capacity_proj_mod = 2\<close> and \<open>nb_iter = 1\<close>. The claim has \<open>dual_projection\<close> run
  in iteration 0, since 1 is not a multiple of 2; the code logs no projection at all in
  the whole call, and raises.
\<close>

theorem perturb_period_two_projects_nothing:
  "raised_error (perturb demo_env (demo_world 1 2 False False) 0 [0]) =
     Some UnboundLocalError \<and>
   filter is_projection
     (trace (final_world (perturb demo_env (demo_world 1 2 False False) 0 [0]))) = []"
  by (simp add: demo_defs perturb_defs)

section \<open>What every step of a call keeps\<close>

lemma keeps_image_refl: "keeps_image n0 X e w w"
  by (simp add: keeps_image_def new_events_def)

lemma take_prefixD: "take (length xs) ys = xs \<Longrightarrow> ys = xs @ drop (length xs) ys"
  by (metis append_take_drop_id)

lemma keeps_image_trans:
  assumes "keeps_image n0 X e w w'" and "keeps_image n0 X e w' w''"
  shows "keeps_image n0 X e w w''"
proof -
  from assms(1) have t1: "trace w' = trace w @ new_events w w'"
    by (simp add: keeps_image_def new_events_def take_prefixD)
  from assms(2) have t2: "trace w'' = trace w' @ new_events w' w''"
    by (simp add: keeps_image_def new_events_def take_prefixD)
  have t3: "trace w'' = trace w @ (new_events w w' @ new_events w' w'')"
    using t1 t2 by simp
  then have n: "new_events w w'' = new_events w w' @ new_events w' w''"
    using new_events_def [of w w''] by simp
  have "take (length (trace w)) (trace w'') = trace w"
    using t3 by simp
  moreover have "list_all (from_image X e) (new_events w w'')"
    using assms n by (simp add: keeps_image_def)
  ultimately show ?thesis
    using assms by (simp add: keeps_image_def)
qed

lemma keeps_image_intro:
  assumes "take n0 (heap w') = take n0 (heap w)"
    and "length (heap w) \<le> length (heap w')"
    and "settings (self w') = settings (self w)"
    and "trace w' = trace w @ evs"
    and "list_all (from_image X e) evs"
  shows "keeps_image n0 X e w w'"
  using assms by (simp add: keeps_image_def new_events_def)

lemma keeps_image_image:
  assumes "keeps_image n0 X e w w'" and "xa < n0"
  shows "heap w' ! xa = heap w ! xa"
proof -
  have "heap w' ! xa = take n0 (heap w') ! xa" using assms(2) by simp
  also have "\<dots> = take n0 (heap w) ! xa" using assms(1) by (simp add: keeps_image_def)
  also have "\<dots> = heap w ! xa" using assms(2) by simp
  finally show ?thesis .
qed

lemma settings_fields:
  assumes "settings s' = settings s"
  shows "eps s' = eps s" and "clipping s' = clipping s" and "clip_min s' = clip_min s"
    and "clip_max s' = clip_max s" and "postprocess s' = postprocess s"
    and "verbose s' = verbose s" and "nb_iter s' = nb_iter s"
    and "capacity_proj_mod s' = capacity_proj_mod s" and "lr s' = lr s"
proof -
  have "eps (settings s') = eps (settings s)" using assms by simp
  then show "eps s' = eps s" by (simp add: settings_def)
  have "clipping (settings s') = clipping (settings s)" using assms by simp
  then show "clipping s' = clipping s" by (simp add: settings_def)
  have "clip_min (settings s') = clip_min (settings s)" using assms by simp
  then show "clip_min s' = clip_min s" by (simp add: settings_def)
  have "clip_max (settings s') = clip_max (settings s)" using assms by simp
  then show "clip_max s' = clip_max s" by (simp add: settings_def)
  have "postprocess (settings s') = postprocess (settings s)" using assms by simp
  then show "postprocess s' = postprocess s" by (simp add: settings_def)
  have "verbose (settings s') = verbose (settings s)" using assms by simp
  then show "verbose s' = verbose s" by (simp add: settings_def)
  have "nb_iter (settings s') = nb_iter (settings s)" using assms by simp
  then show "nb_iter s' = nb_iter s" by (simp add: settings_def)
  have "capacity_proj_mod (settings s') = capacity_proj_mod (settings s)" using assms by simp
  then show "capacity_proj_mod s' = capacity_proj_mod s" by (simp add: settings_def)
  have "lr (settings s') = lr (settings s)" using assms by simp
  then show "lr s' = lr s" by (simp add: settings_def)
qed

lemma keeps_image_settings: "keeps_image n0 X e w w' \<Longrightarrow> settings (self w') = settings (self w)"
  by (simp add: keeps_image_def)

lemma keeps_image_length: "keeps_image n0 X e w w' \<Longrightarrow> length (heap w) \<le> length (heap w')"
  by (simp add: keeps_image_def)

lemma budget_map: "map (\<lambda>m. e * m) (map total_mass X) = map (\<lambda>el. e * total_mass el) X"
  by simp

lemma gradient_step_keeps_image:
  assumes "gradient_step env xa y w pa = (w1, scores, loss)"
    and "heap w ! xa = X" and "n0 \<le> pa" and "pa < length (heap w)"
  shows "keeps_image n0 X e w w1"
  using assms
  by (intro keeps_image_intro [where evs = "[Coupling2Adversarial (heap w ! pa) (heap w ! xa),
             Predict (clamp (clip_min (self w)) (clip_max (self w))
               (coupling2adversarial env (wasserstein_attack.truncate (self w))
                  (heap w ! pa) (heap w ! xa))),
             LossFn scores y]"])
     (auto simp: gradient_step_def Let_def alloc_def settings_def split: prod.splits)

lemma place_cases:
  assumes "place h pa xa r = (h', pa')" and "xa < n0" and "n0 \<le> pa" and "pa < length h"
  shows "take n0 h' = take n0 h" and "length h \<le> length h'" and "pa' < length h'"
  using assms by (cases r; auto simp: alloc_def)+

lemma project_Inr_keeps_image:
  assumes "project env xa N t w pa nl = Inr (w', pa', nl')"
    and "heap w ! xa = X" and "eps (self w) = e" and "N = map total_mass X"
    and "xa < n0" and "n0 \<le> pa" and "pa < length (heap w)"
  shows "keeps_image n0 X e w w'" and "pa' < length (heap w')" and "self w' = self w"
proof -
  show "self w' = self w"
    using assms(1) by (auto simp: project_def Let_def split: prod.splits if_splits)
  show "pa' < length (heap w')"
    using assms(1,5,6,7)
    by (auto simp: project_def Let_def split: prod.splits if_splits dest: place_cases)
  have h: "take n0 (heap w') = take n0 (heap w) \<and> length (heap w) \<le> length (heap w')"
    using assms(1,5,6,7)
    by (auto simp: project_def Let_def split: prod.splits if_splits dest: place_cases)
  have "\<exists>evs. trace w' = trace w @ evs \<and> list_all (from_image X e) evs \<and>
           settings (self w') = settings (self w)"
    using assms(1-4)
    by (auto simp: project_def Let_def split: prod.splits if_splits)
  with h show "keeps_image n0 X e w w'"
    by (auto intro: keeps_image_intro)
qed

lemma iteration_InrE:
  assumes "iteration env xa y N bs t w pa nl = Inr (w', pa', nl')"
  obtains w1 scores loss w2 pa2 w3 n w4 where
    "gradient_step env xa y w pa = (w1, scores, loss)"
    "project env xa N t w1 pa nl = Inr (w2, pa2, nl')"
    "account env t w2 nl' = Inr (w3, n)"
    "report env bs t scores y loss n w3 = Inr w4"
    "w' = (constraint_checks env xa N (1 / 10 ^ 6) (1 / 10 ^ 6) (1 / 10 ^ 3) False w4 pa2)
            \<lparr>heap := heap w4 @ [heap w4 ! pa2]\<rparr>"
    "pa' = length (heap w4)"
  using assms
  by (auto simp: iteration_def Let_def alloc_def constraint_checks_def emit_def
      split: prod.splits sum.splits)

lemma iteration_InlE:
  assumes "iteration env xa y N bs t w pa nl = Inl (e, w')"
  obtains w1 scores loss where
    "gradient_step env xa y w pa = (w1, scores, loss)"
    "project env xa N t w1 pa nl = Inl (e, w')"
  | w1 scores loss w2 pa2 nl2 where
    "gradient_step env xa y w pa = (w1, scores, loss)"
    "project env xa N t w1 pa nl = Inr (w2, pa2, nl2)"
    "account env t w2 nl2 = Inl (e, w')"
  | w1 scores loss w2 pa2 nl2 w3 n where
    "gradient_step env xa y w pa = (w1, scores, loss)"
    "project env xa N t w1 pa nl = Inr (w2, pa2, nl2)"
    "account env t w2 nl2 = Inr (w3, n)"
    "report env bs t scores y loss n w3 = Inl (e, w')"
  using assms
  by (auto simp: iteration_def Let_def alloc_def
      split: prod.splits sum.splits)

lemma project_Inl_effect:
  assumes "project env xa N t w pa nl = Inl (e, w')"
  shows "w' = w" and "e = ZeroDivisionError" and "capacity_proj_mod (self w) = 0"
  using assms
  by (auto simp: project_def Let_def split: prod.splits if_splits)

lemma account_Inr_effect:
  assumes "account env t w nl = Inr (w', n)"
  shows "nl = Some n"
    and "heap w' = heap w" and "trace w' = trace w"
    and "self w' = (self w)\<lparr>run_time := run_time (self w) + elapsed_time env t,
            num_iter := num_iter (self w) + n, func_calls := func_calls (self w) + 1\<rparr>"
  using assms by (auto simp: account_def Let_def split: option.splits)

lemma account_Inl_effect:
  assumes "account env t w nl = Inl (e, w')"
  shows "nl = None" and "e = UnboundLocalError"
    and "heap w' = heap w" and "trace w' = trace w"
    and "self w' = (self w)\<lparr>run_time := run_time (self w) + elapsed_time env t\<rparr>"
  using assms by (auto simp: account_def Let_def split: option.splits)

lemma account_keeps_image:
  assumes "account env t w nl = Inr (w', n)"
  shows "keeps_image n0 X e w w'"
  using account_Inr_effect [OF assms]
  by (intro keeps_image_intro [where evs = "[]"]) (simp_all add: settings_def)

lemma account_Inl_keeps_image:
  assumes "account env t w nl = Inl (er, w')"
  shows "keeps_image n0 X e w w'"
  using account_Inl_effect [OF assms]
  by (intro keeps_image_intro [where evs = "[]"]) (simp_all add: settings_def)

lemma report_Inr_effect:
  assumes "report env bs t scores y loss n w = Inr w'"
  shows "heap w' = heap w" and "self w' = self w"
    and "\<exists>evs. trace w' = trace w @ evs \<and> list_all (\<lambda>ev. \<not> is_projection ev \<and> \<not> is_check ev \<and> \<not> is_predict ev) evs \<and> length evs \<le> 1"
  using assms by (auto simp: report_def emit_def split: if_splits)

lemma report_Inl_effect:
  assumes "report env bs t scores y loss n w = Inl (e, w')"
  shows "w' = w" and "e = ZeroDivisionError"
  using assms by (auto simp: report_def emit_def split: if_splits)

lemma report_keeps_image:
  assumes "report env bs t scores y loss n w = Inr w'"
  shows "keeps_image n0 X e w w'"
  using assms
  by (auto simp: report_def emit_def keeps_image_def new_events_def split: if_splits)

lemma constraint_checks_effect:
  "heap (constraint_checks env xa N tn tm tc v w pa) = heap w"
  "self (constraint_checks env xa N tn tm tc v w pa) = self w"
  "trace (constraint_checks env xa N tn tm tc v w pa) = trace w @
     [CheckNonnegativity (broadcast_div (heap w ! pa) N) tn v
        (check_nonnegativity env (wasserstein_attack.truncate (self w))
           (broadcast_div (heap w ! pa) N) tn v),
      CheckMarginalConstraint (broadcast_div (heap w ! pa) N) (broadcast_div (heap w ! xa) N) tm v
        (check_marginal_constraint env (wasserstein_attack.truncate (self w))
           (broadcast_div (heap w ! pa) N) (broadcast_div (heap w ! xa) N) tm v),
      CheckTransportCost (broadcast_div (heap w ! pa) N) tc v
        (check_transport_cost env (wasserstein_attack.truncate (self w))
           (broadcast_div (heap w ! pa) N) tc v)]"
  by (simp_all add: constraint_checks_def emit_def Let_def)

lemma constraint_checks_keeps_image:
  assumes "heap w ! xa = X" and "N = map total_mass X"
  shows "keeps_image n0 X e w (constraint_checks env xa N tn tm tc v w pa)"
  using assms
  by (simp add: keeps_image_def new_events_def constraint_checks_effect)

lemma clone_keeps_image:
  assumes "n0 \<le> length (heap w)"
  shows "keeps_image n0 X e w (w\<lparr>heap := heap w @ [v]\<rparr>)"
  using assms by (simp add: keeps_image_def new_events_def)

lemma iteration_Inr_keeps_image:
  assumes run: "iteration env xa y N bs t w pa nl = Inr (w', pa', nl')"
    and X: "heap w ! xa = X" and e: "eps (self w) = e" and N: "N = map total_mass X"
    and wf: "xa < n0" "n0 \<le> pa" "pa < length (heap w)"
  shows "keeps_image n0 X e w w'" and "n0 \<le> pa'" and "pa' < length (heap w')"
proof -
  from run obtain w1 scores loss w2 pa2 w3 n w4 where
    gs: "gradient_step env xa y w pa = (w1, scores, loss)" and
    pr: "project env xa N t w1 pa nl = Inr (w2, pa2, nl')" and
    ac: "account env t w2 nl' = Inr (w3, n)" and
    re: "report env bs t scores y loss n w3 = Inr w4" and
    w': "w' = (constraint_checks env xa N (1 / 10 ^ 6) (1 / 10 ^ 6) (1 / 10 ^ 3) False w4 pa2)
            \<lparr>heap := heap w4 @ [heap w4 ! pa2]\<rparr>" and
    pa': "pa' = length (heap w4)"
    by (rule iteration_InrE)
  have k1: "keeps_image n0 X e w w1"
    using gs X wf(2,3) by (rule gradient_step_keeps_image)
  have X1: "heap w1 ! xa = X" using keeps_image_image [OF k1 wf(1)] X by simp
  have e1: "eps (self w1) = e"
    using settings_fields(1) [OF keeps_image_settings [OF k1]] e by simp
  have l1: "pa < length (heap w1)" using keeps_image_length [OF k1] wf(3) by simp
  have k2: "keeps_image n0 X e w1 w2"
    using pr X1 e1 N wf(1,2) l1 by (rule project_Inr_keeps_image(1))
  have k3: "keeps_image n0 X e w2 w3" using ac by (rule account_keeps_image)
  have k4: "keeps_image n0 X e w3 w4" using re by (rule report_keeps_image)
  have k14: "keeps_image n0 X e w w4"
    using k1 k2 k3 k4 by (blast intro: keeps_image_trans)
  have X4: "heap w4 ! xa = X" using keeps_image_image [OF k14 wf(1)] X by simp
  let ?w5 = "constraint_checks env xa N (1 / 10 ^ 6) (1 / 10 ^ 6) (1 / 10 ^ 3) False w4 pa2"
  have k5: "keeps_image n0 X e w4 ?w5"
    using X4 N by (rule constraint_checks_keeps_image)
  have len4: "n0 \<le> length (heap w4)"
    using keeps_image_length [OF k14] wf(2,3) by simp
  then have "n0 \<le> length (heap ?w5)" by (simp add: constraint_checks_effect)
  then have k6: "keeps_image n0 X e ?w5 (?w5\<lparr>heap := heap ?w5 @ [heap w4 ! pa2]\<rparr>)"
    by (rule clone_keeps_image)
  have "w' = ?w5\<lparr>heap := heap ?w5 @ [heap w4 ! pa2]\<rparr>"
    using w' by (simp add: constraint_checks_effect)
  with k14 k5 k6 show "keeps_image n0 X e w w'"
    by (blast intro: keeps_image_trans)
  show "n0 \<le> pa'" using pa' len4 by simp
  show "pa' < length (heap w')" using pa' w' by simp
qed

lemma iteration_Inl_keeps_image:
  assumes run: "iteration env xa y N bs t w pa nl = Inl (er, w')"
    and X: "heap w ! xa = X" and e: "eps (self w) = e" and N: "N = map total_mass X"
    and wf: "xa < n0" "n0 \<le> pa" "pa < length (heap w)"
  shows "keeps_image n0 X e w w'"
  using run
proof (cases rule: iteration_InlE)
  case (1 w1 scores loss)
  have k1: "keeps_image n0 X e w w1"
    using 1(1) X wf(2,3) by (rule gradient_step_keeps_image)
  with project_Inl_effect(1) [OF 1(2)] show ?thesis by simp
next
  case (2 w1 scores loss w2 pa2 nl2)
  have k1: "keeps_image n0 X e w w1"
    using 2(1) X wf(2,3) by (rule gradient_step_keeps_image)
  have X1: "heap w1 ! xa = X" using keeps_image_image [OF k1 wf(1)] X by simp
  have e1: "eps (self w1) = e"
    using settings_fields(1) [OF keeps_image_settings [OF k1]] e by simp
  have l1: "pa < length (heap w1)" using keeps_image_length [OF k1] wf(3) by simp
  have k2: "keeps_image n0 X e w1 w2"
    using 2(2) X1 e1 N wf(1,2) l1 by (rule project_Inr_keeps_image(1))
  have k3: "keeps_image n0 X e w2 w'" using 2(3) by (rule account_Inl_keeps_image)
  from k1 k2 k3 show ?thesis by (blast intro: keeps_image_trans)
next
  case (3 w1 scores loss w2 pa2 nl2 w3 n)
  have k1: "keeps_image n0 X e w w1"
    using 3(1) X wf(2,3) by (rule gradient_step_keeps_image)
  have X1: "heap w1 ! xa = X" using keeps_image_image [OF k1 wf(1)] X by simp
  have e1: "eps (self w1) = e"
    using settings_fields(1) [OF keeps_image_settings [OF k1]] e by simp
  have l1: "pa < length (heap w1)" using keeps_image_length [OF k1] wf(3) by simp
  have k2: "keeps_image n0 X e w1 w2"
    using 3(2) X1 e1 N wf(1,2) l1 by (rule project_Inr_keeps_image(1))
  have k3: "keeps_image n0 X e w2 w3" using 3(3) by (rule account_keeps_image)
  have "w' = w3" using report_Inl_effect(1) [OF 3(4)] .
  with k1 k2 k3 show ?thesis by (blast intro: keeps_image_trans)
qed

lemma loop_keeps_image:
  assumes "heap w ! xa = X" and "eps (self w) = e" and "N = map total_mass X"
    and "xa < n0" and "n0 \<le> pa" and "pa < length (heap w)"
  shows "case loop env xa y N bs ts w pa nl of
           Inl (er, w') \<Rightarrow> keeps_image n0 X e w w'
         | Inr (w', pa', nl') \<Rightarrow>
             keeps_image n0 X e w w' \<and> n0 \<le> pa' \<and> pa' < length (heap w')"
  using assms
proof (induction ts arbitrary: w pa nl)
  case Nil
  then show ?case by (simp add: keeps_image_refl)
next
  case (Cons t ts)
  show ?case
  proof (cases "iteration env xa y N bs t w pa nl")
    case (Inl a)
    obtain er w' where a: "a = (er, w')" by (cases a)
    have "keeps_image n0 X e w w'"
      using Inl Cons.prems unfolding a by (rule iteration_Inl_keeps_image)
    with Inl a show ?thesis by simp
  next
    case (Inr b)
    obtain w1 pa1 nl1 where b: "b = (w1, pa1, nl1)" by (cases b)
    have it: "iteration env xa y N bs t w pa nl = Inr (w1, pa1, nl1)"
      using Inr b by simp
    have k: "keeps_image n0 X e w w1" and p: "n0 \<le> pa1" "pa1 < length (heap w1)"
      using iteration_Inr_keeps_image [OF it Cons.prems] by simp_all
    have X1: "heap w1 ! xa = X"
      using keeps_image_image [OF k Cons.prems(4)] Cons.prems(1) by simp
    have e1: "eps (self w1) = e"
      using settings_fields(1) [OF keeps_image_settings [OF k]] Cons.prems(2) by simp
    have IH: "case loop env xa y N bs ts w1 pa1 nl1 of
           Inl (er, w') \<Rightarrow> keeps_image n0 X e w1 w'
         | Inr (w', pa', nl') \<Rightarrow>
             keeps_image n0 X e w1 w' \<and> n0 \<le> pa' \<and> pa' < length (heap w')"
      using X1 e1 Cons.prems(3,4) p by (rule Cons.IH)
    show ?thesis
      using IH k it
      by (auto split: sum.splits intro: keeps_image_trans)
  qed
qed

lemma post_processing_keeps_image:
  assumes "post_processing env xa N w pa = (w', pa', adv)"
    and "heap w ! xa = X" and "eps (self w) = e" and "N = map total_mass X"
    and "xa < n0" and "n0 \<le> pa" and "pa < length (heap w)"
  shows "keeps_image n0 X e w w'"
proof -
  obtain h pa2 where pl: "place (heap w) pa xa
      (dual_capacity_constrained_projection env (heap w ! pa) (heap w ! xa) (cost (self w))
         (map (\<lambda>m. eps (self w) * m) N) (forward_idx (self w)) (backward_idx (self w))
         (coupling2adversarial env (wasserstein_attack.truncate (self w)))) = (h, pa2)"
    by (cases "place (heap w) pa xa
      (dual_capacity_constrained_projection env (heap w ! pa) (heap w ! xa) (cost (self w))
         (map (\<lambda>m. eps (self w) * m) N) (forward_idx (self w)) (backward_idx (self w))
         (coupling2adversarial env (wasserstein_attack.truncate (self w))))")
  have h: "take n0 h = take n0 (heap w)" "length (heap w) \<le> length h"
    using place_cases [OF pl assms(5,6,7)] by simp_all
  have hx: "h ! xa = X"
  proof -
    have "h ! xa = take n0 h ! xa" using assms(5) by simp
    also have "\<dots> = heap w ! xa" using h(1) assms(5) by simp
    finally show ?thesis using assms(2) by simp
  qed
  have "heap w' = h \<and> settings (self w') = settings (self w) \<and>
        (\<exists>evs. trace w' = trace w @ evs \<and> list_all (from_image X e) evs)"
    using assms(1-4) pl hx
    by (cases "verbose (self w)")
       (auto simp: post_processing_def Let_def emit_def constraint_checks_effect)
  with h show ?thesis by (auto intro: keeps_image_intro)
qed

lemma final_check_effect:
  assumes "final_check env xa N w pa = (w2, adv)"
  shows "heap w2 = heap w" and "self w2 = self w"
    and "adv = coupling2adversarial env (wasserstein_attack.truncate (self w))
                 (heap w ! pa) (heap w ! xa)"
    and "trace w2 = trace w @
          [Coupling2Adversarial (heap w ! pa) (heap w ! xa),
           CheckHypercube adv None (verbose (self w))
             (check_hypercube env adv None (verbose (self w))),
           CheckNonnegativity (broadcast_div (heap w ! pa) N) (1 / 10 ^ 5) (verbose (self w))
             (check_nonnegativity env (wasserstein_attack.truncate (self w))
                (broadcast_div (heap w ! pa) N) (1 / 10 ^ 5) (verbose (self w))),
           CheckMarginalConstraint (broadcast_div (heap w ! pa) N)
             (broadcast_div (heap w ! xa) N) (1 / 10 ^ 5) (verbose (self w))
             (check_marginal_constraint env (wasserstein_attack.truncate (self w))
                (broadcast_div (heap w ! pa) N) (broadcast_div (heap w ! xa) N)
                (1 / 10 ^ 5) (verbose (self w))),
           CheckTransportCost (broadcast_div (heap w ! pa) N) (eps (self w) * (1 / 10 ^ 3))
             (verbose (self w))
             (check_transport_cost env (wasserstein_attack.truncate (self w))
                (broadcast_div (heap w ! pa) N) (eps (self w) * (1 / 10 ^ 3))
                (verbose (self w)))]"
  using assms
  by (auto simp: final_check_def Let_def emit_def constraint_checks_effect)

lemma final_check_keeps_image:
  assumes "final_check env xa N w pa = (w2, adv)"
    and "heap w ! xa = X" and "N = map total_mass X"
  shows "keeps_image n0 X e w w2"
  using final_check_effect [OF assms(1)] assms(2,3)
  by (simp add: keeps_image_def new_events_def)

lemma finish_cases:
  assumes "finish env xa N w pa = (img, w', pa')"
  obtains w2 adv where
    "final_check env xa N w pa = (w2, adv)" "\<not> postprocess (self w)"
    "w' = w2" "pa' = pa"
    "img = (if clipping (self w) then clamp (clip_min (self w)) (clip_max (self w)) adv
            else adv)"
  | w2 adv adv3 where
    "final_check env xa N w pa = (w2, adv)" "postprocess (self w)"
    "post_processing env xa N w2 pa = (w', pa', adv3)"
    "img = (if clipping (self w') then clamp (clip_min (self w')) (clip_max (self w')) adv3
            else adv3)"
proof (cases "final_check env xa N w pa")
  case (Pair w2 adv)
  note fc = final_check_effect [OF Pair]
  show ?thesis
  proof (cases "postprocess (self w)")
    case False
    with Pair fc(2) assms have "w' = w2 \<and> pa' = pa \<and>
      img = (if clipping (self w) then clamp (clip_min (self w)) (clip_max (self w)) adv
             else adv)"
      by (auto simp: finish_def)
    with Pair False that(1) show ?thesis by blast
  next
    case True
    with Pair fc(2) assms obtain adv3 where
      "post_processing env xa N w2 pa = (w', pa', adv3)"
      "img = (if clipping (self w') then clamp (clip_min (self w')) (clip_max (self w')) adv3
              else adv3)"
      by (auto simp: finish_def split: prod.splits)
    with Pair True that(2) show ?thesis by blast
  qed
qed

lemma finish_keeps_image:
  assumes run: "finish env xa N w pa = (img, w', pa')"
    and X: "heap w ! xa = X" and e: "eps (self w) = e" and N: "N = map total_mass X"
    and wf: "xa < n0" "n0 \<le> pa" "pa < length (heap w)"
  shows "keeps_image n0 X e w w'"
  using run
proof (cases rule: finish_cases)
  case (1 w2 adv)
  then show ?thesis using final_check_keeps_image [OF 1(1) X N] by simp
next
  case (2 w2 adv adv3)
  note fc = final_check_effect [OF 2(1)]
  have k12: "keeps_image n0 X e w w2" using 2(1) X N by (rule final_check_keeps_image)
  have "keeps_image n0 X e w2 w'"
    using 2(3)
  proof (rule post_processing_keeps_image)
    show "heap w2 ! xa = X" using X fc(1) by simp
    show "eps (self w2) = e" using e fc(2) by simp
    show "N = map total_mass X" by (rule N)
    show "xa < n0" by (rule wf)
    show "n0 \<le> pa" by (rule wf)
    show "pa < length (heap w2)" using wf(3) fc(1) by simp
  qed
  with k12 show ?thesis by (rule keeps_image_trans)
qed

lemma perturb_keeps_image:
  assumes "xa < length (heap w)"
  shows "keeps_image (length (heap w)) (heap w ! xa) (eps (self w)) w
           (final_world (perturb env w xa y))"
proof -
  let ?n0 = "length (heap w)" and ?X = "heap w ! xa" and ?e = "eps (self w)"
  obtain c f b where ic: "initialize_cost env (wasserstein_attack.truncate (self w)) ?X
      (inf_cost (self w)) = (c, f, b)"
    by (cases "initialize_cost env (wasserstein_attack.truncate (self w)) ?X (inf_cost (self w))")
  let ?s1 = "(self w)\<lparr>cost := Some c, forward_idx := Some f, backward_idx := Some b\<rparr>"
  let ?h1 = "heap w @ [initialize_coupling env (wasserstein_attack.truncate ?s1) ?X]"
  let ?w1 = "\<lparr>heap = ?h1, self = ?s1,
               trace = trace w @ [InitializeCost ?X (inf_cost (self w)), InitializeCoupling ?X]\<rparr>"
  let ?N = "sum_dims_123 (?h1 ! xa)"
  have N: "?N = map total_mass ?X"
    using assms by (simp add: sum_dims_123_def nth_append)
  have k1: "keeps_image ?n0 ?X ?e w ?w1"
    by (simp add: keeps_image_def new_events_def settings_def)
  have X1: "heap ?w1 ! xa = ?X" using assms by (simp add: nth_append)
  have e1: "eps (self ?w1) = ?e" by simp
  have lp: "case loop env xa y ?N (length ?X) [0..<nat (nb_iter ?s1)] ?w1 ?n0 None of
           Inl (er, w') \<Rightarrow> keeps_image ?n0 ?X ?e ?w1 w'
         | Inr (w', pa', nl') \<Rightarrow>
             keeps_image ?n0 ?X ?e ?w1 w' \<and> ?n0 \<le> pa' \<and> pa' < length (heap w')"
    using X1 e1 N assms by (rule loop_keeps_image) simp_all
  have pt: "perturb env w xa y =
      (case loop env xa y ?N (length ?X) [0..<nat (nb_iter ?s1)] ?w1 ?n0 None of
         Inl er \<Rightarrow> Inl er
       | Inr (w2, pa2, nl) \<Rightarrow> Inr (finish env xa ?N w2 pa2))"
    using ic by (simp add: perturb_def Let_def alloc_def)
  show ?thesis
  proof (cases "loop env xa y ?N (length ?X) [0..<nat (nb_iter ?s1)] ?w1 ?n0 None")
    case (Inl a)
    obtain er w' where a: "a = (er, w')" by (cases a)
    from lp Inl a have "keeps_image ?n0 ?X ?e ?w1 w'" by simp
    with k1 have "keeps_image ?n0 ?X ?e w w'" by (rule keeps_image_trans)
    moreover have "final_world (perturb env w xa y) = w'"
      using pt Inl a by simp
    ultimately show ?thesis by simp
  next
    case (Inr r)
    obtain w2 pa2 nl2 where r: "r = (w2, pa2, nl2)" by (cases r)
    from lp Inr r have k2: "keeps_image ?n0 ?X ?e ?w1 w2"
      and p: "?n0 \<le> pa2" "pa2 < length (heap w2)" by simp_all
    have k12: "keeps_image ?n0 ?X ?e w w2" using k1 k2 by (rule keeps_image_trans)
    obtain img w3 pa3 where fi: "finish env xa ?N w2 pa2 = (img, w3, pa3)"
      by (cases "finish env xa ?N w2 pa2")
    have "keeps_image ?n0 ?X ?e w2 w3"
      using fi
    proof (rule finish_keeps_image)
      show "heap w2 ! xa = ?X" using keeps_image_image [OF k12 assms] .
      show "eps (self w2) = ?e"
        using settings_fields(1) [OF keeps_image_settings [OF k12]] .
      show "?N = map total_mass ?X" by (rule N)
      show "xa < ?n0" by (rule assms)
      show "?n0 \<le> pa2" by (rule p)
      show "pa2 < length (heap w2)" by (rule p)
    qed
    with k12 have "keeps_image ?n0 ?X ?e w w3" by (rule keeps_image_trans)
    moreover have "final_world (perturb env w xa y) = w3"
      using pt Inr r fi by simp
    ultimately show ?thesis by simp
  qed
qed

lemma from_image_given: "from_image X e ev \<Longrightarrow> given_image X ev"
  by (cases ev) simp_all


lemma list_all_mono: "list_all P xs \<Longrightarrow> (\<And>x. P x \<Longrightarrow> Q x) \<Longrightarrow> list_all Q xs"
  by (induction xs) auto

lemma upt_two: "[0..<2] = [0, Suc 0]"
  by (simp add: upt_rec)

section \<open>What a step logs\<close>

lemma gradient_step_effect:
  assumes "gradient_step env xa y w pa = (w1, scores, loss)"
  shows "scores = predict env (clamp (clip_min (self w)) (clip_max (self w))
               (coupling2adversarial env (wasserstein_attack.truncate (self w))
                  (heap w ! pa) (heap w ! xa)))"
    and "loss = loss_fn env scores y"
    and "self w1 = (self w)\<lparr>lst_loss := lst_loss (self w) @ [loss],
            lst_acc := lst_acc (self w) @
              [int (length (filter (\<lambda>(row, label). argmax env row = label) (zip scores y)))]\<rparr>"
    and "trace w1 = trace w @
            [Coupling2Adversarial (heap w ! pa) (heap w ! xa),
             Predict (clamp (clip_min (self w)) (clip_max (self w))
               (coupling2adversarial env (wasserstein_attack.truncate (self w))
                  (heap w ! pa) (heap w ! xa))),
             LossFn scores y]"
    and "length (heap w1) = Suc (length (heap w))"
  using assms
  by (auto simp: gradient_step_def Let_def alloc_def split: prod.splits)

lemma place_length: "place h pa xa r = (h', pa') \<Longrightarrow> length h \<le> length h'"
  by (cases r) (auto simp: alloc_def)

lemma place_value:
  assumes "place h pa xa r = (h', pa')" and "pa < length h" and "xa < length h" and "pa \<noteq> xa"
  shows "h' ! pa' = returned_value (h ! xa) r" and "h' ! xa = h ! xa"
  using assms by (cases r; auto simp: alloc_def nth_append)+

lemma project_Inr_log:
  assumes "project env xa N t w pa nl = Inr (w', pa', nl')"
  shows "\<exists>pr. trace w' = trace w @ pr \<and> list_all is_projection pr \<and> length pr \<le> 1"
    and "length (heap w) \<le> length (heap w')"
    and "self w' = self w"
  using assms
  by (auto simp: project_def Let_def split: prod.splits if_splits dest: place_length)


lemma post_processing_effect:
  assumes pl: "place (heap w) pa xa
      (dual_capacity_constrained_projection env (heap w ! pa) (heap w ! xa) (cost (self w))
         (map (\<lambda>m. eps (self w) * m) N) (forward_idx (self w)) (backward_idx (self w))
         (coupling2adversarial env (wasserstein_attack.truncate (self w)))) = (h, pa2)"
    and run: "post_processing env xa N w pa = (w', pa', adv)"
  shows "pa' = pa2" and "heap w' = h" and "self w' = self w"
    and "adv = coupling2adversarial env (wasserstein_attack.truncate (self w)) (h ! pa2) (h ! xa)"
    and "trace w' = trace w @ (if verbose (self w) then [PrintPostProcessing] else []) @
          [CapacityProjection (heap w ! pa) (heap w ! xa) (cost (self w))
             (map (\<lambda>m. eps (self w) * m) N) (forward_idx (self w)) (backward_idx (self w)),
           Coupling2Adversarial (h ! pa2) (h ! xa),
           CheckHypercube adv (Some (eps (self w) * (5 / 10 ^ 2))) (verbose (self w))
             (check_hypercube env adv (Some (eps (self w) * (5 / 10 ^ 2))) (verbose (self w))),
           CheckNonnegativity (broadcast_div (h ! pa2) N) (1 / 10 ^ 6) (verbose (self w))
             (check_nonnegativity env (wasserstein_attack.truncate (self w))
                (broadcast_div (h ! pa2) N) (1 / 10 ^ 6) (verbose (self w))),
           CheckMarginalConstraint (broadcast_div (h ! pa2) N) (broadcast_div (h ! xa) N)
             (1 / 10 ^ 6) (verbose (self w))
             (check_marginal_constraint env (wasserstein_attack.truncate (self w))
                (broadcast_div (h ! pa2) N) (broadcast_div (h ! xa) N)
                (1 / 10 ^ 6) (verbose (self w))),
           CheckTransportCost (broadcast_div (h ! pa2) N) (eps (self w) * (1 / 10 ^ 3))
             (verbose (self w))
             (check_transport_cost env (wasserstein_attack.truncate (self w))
                (broadcast_div (h ! pa2) N) (eps (self w) * (1 / 10 ^ 3)) (verbose (self w)))]"
  using pl run
  by (cases "verbose (self w)";
      auto simp: post_processing_def Let_def emit_def constraint_checks_effect)+

section \<open>The verdicts of the checks are only logged\<close>















section \<open>The checks of the coupling\<close>





lemma finish_log:
  assumes run: "finish env xa N w pa = (img, w', pa')"
  shows "take 5 (new_events w w') =
          [Coupling2Adversarial (heap w ! pa) (heap w ! xa),
           CheckHypercube
             (coupling2adversarial env (wasserstein_attack.truncate (self w))
                (heap w ! pa) (heap w ! xa)) None (verbose (self w))
             (check_hypercube env
                (coupling2adversarial env (wasserstein_attack.truncate (self w))
                   (heap w ! pa) (heap w ! xa)) None (verbose (self w)))] @
          logged_checks env (wasserstein_attack.truncate (self w))
            (broadcast_div (heap w ! pa) N) (broadcast_div (heap w ! xa) N)
            (1 / 10 ^ 5) (1 / 10 ^ 5) (eps (self w) * (1 / 10 ^ 3)) (verbose (self w))"
  using run
proof (cases rule: finish_cases)
  case (1 w2 adv)
  note fc = final_check_effect [OF 1(1)]
  show ?thesis
    unfolding new_events_def 1(3) fc(4) fc(3) by (simp add: logged_checks_def)
next
  case (2 w2 adv adv3)
  note fc = final_check_effect [OF 2(1)]
  obtain h pa2 where pl: "place (heap w2) pa xa
      (dual_capacity_constrained_projection env (heap w2 ! pa) (heap w2 ! xa) (cost (self w2))
         (map (\<lambda>m. eps (self w2) * m) N) (forward_idx (self w2)) (backward_idx (self w2))
         (coupling2adversarial env (wasserstein_attack.truncate (self w2)))) = (h, pa2)"
    by (cases "place (heap w2) pa xa
      (dual_capacity_constrained_projection env (heap w2 ! pa) (heap w2 ! xa) (cost (self w2))
         (map (\<lambda>m. eps (self w2) * m) N) (forward_idx (self w2)) (backward_idx (self w2))
         (coupling2adversarial env (wasserstein_attack.truncate (self w2))))")
  note pp = post_processing_effect [OF pl 2(3)]
  show ?thesis
    unfolding new_events_def pp(5) fc(4) fc(3) by (simp add: logged_checks_def)
qed




section \<open>What the model is shown and what the hypercube check is shown\<close>



section \<open>The counters\<close>

lemma perturb_InrE:
  assumes run: "perturb env w xa y = Inr (img, w', pa')" and xa: "xa < length (heap w)"
  obtains w1 w2 pa2 nl2 where
    "func_calls (self w1) = func_calls (self w)"
    "loop env xa y (sum_dims_123 (heap w ! xa)) (length (heap w ! xa))
       [0..<nat (nb_iter (self w))] w1 (length (heap w)) None = Inr (w2, pa2, nl2)"
    "finish env xa (sum_dims_123 (heap w ! xa)) w2 pa2 = (img, w', pa')"
    "keeps_image (length (heap w)) (heap w ! xa) (eps (self w)) w w2"
    "length (heap w) \<le> pa2" "pa2 < length (heap w2)"
proof -
  let ?n0 = "length (heap w)" and ?X = "heap w ! xa" and ?e = "eps (self w)"
  obtain c f b where ic: "initialize_cost env (wasserstein_attack.truncate (self w)) ?X
      (inf_cost (self w)) = (c, f, b)"
    by (cases "initialize_cost env (wasserstein_attack.truncate (self w)) ?X (inf_cost (self w))")
  let ?s1 = "(self w)\<lparr>cost := Some c, forward_idx := Some f, backward_idx := Some b\<rparr>"
  let ?h1 = "heap w @ [initialize_coupling env (wasserstein_attack.truncate ?s1) ?X]"
  let ?w1 = "\<lparr>heap = ?h1, self = ?s1,
               trace = trace w @ [InitializeCost ?X (inf_cost (self w)), InitializeCoupling ?X]\<rparr>"
  have N: "sum_dims_123 (?h1 ! xa) = sum_dims_123 ?X"
    using xa by (simp add: nth_append)
  have N': "sum_dims_123 ?X = map total_mass ?X" by (simp add: sum_dims_123_def)
  have k1: "keeps_image ?n0 ?X ?e w ?w1"
    by (simp add: keeps_image_def new_events_def settings_def)
  have X1: "heap ?w1 ! xa = ?X" using xa by (simp add: nth_append)
  have e1: "eps (self ?w1) = ?e" by simp
  have lp: "case loop env xa y (sum_dims_123 ?X) (length ?X) [0..<nat (nb_iter (self w))]
                  ?w1 ?n0 None of
           Inl (er, w') \<Rightarrow> keeps_image ?n0 ?X ?e ?w1 w'
         | Inr (w', pa', nl') \<Rightarrow>
             keeps_image ?n0 ?X ?e ?w1 w' \<and> ?n0 \<le> pa' \<and> pa' < length (heap w')"
    using X1 e1 N' xa by (rule loop_keeps_image) simp_all
  have pt: "perturb env w xa y =
      (case loop env xa y (sum_dims_123 ?X) (length ?X) [0..<nat (nb_iter (self w))]
              ?w1 ?n0 None of
         Inl er \<Rightarrow> Inl er
       | Inr (w2, pa2, nl) \<Rightarrow> Inr (finish env xa (sum_dims_123 ?X) w2 pa2))"
    using ic by (simp add: perturb_def Let_def alloc_def N cong: sum.case_cong)
  from run pt obtain w2 pa2 nl2 where
    l: "loop env xa y (sum_dims_123 ?X) (length ?X) [0..<nat (nb_iter (self w))]
          ?w1 ?n0 None = Inr (w2, pa2, nl2)"
    and f: "finish env xa (sum_dims_123 ?X) w2 pa2 = (img, w', pa')"
    by (auto split: sum.splits)
  from lp l have k2: "keeps_image ?n0 ?X ?e ?w1 w2" and p: "?n0 \<le> pa2" "pa2 < length (heap w2)"
    by simp_all
  have k: "keeps_image ?n0 ?X ?e w w2" using k1 k2 by (rule keeps_image_trans)
  have fc: "func_calls (self ?w1) = func_calls (self w)" by simp
  show ?thesis using that [OF fc l f k p] .
qed

lemma iteration_counters:
  assumes "iteration env xa y N bs t w pa nl = Inr (w', pa', nl')"
  shows "func_calls (self w') = func_calls (self w) + 1"
    and "nl' = Some (num_iter (self w') - num_iter (self w))"
proof -
  from assms obtain w1 scores loss w2 pa2 w3 n w4 where
    gs: "gradient_step env xa y w pa = (w1, scores, loss)" and
    pr: "project env xa N t w1 pa nl = Inr (w2, pa2, nl')" and
    ac: "account env t w2 nl' = Inr (w3, n)" and
    re: "report env bs t scores y loss n w3 = Inr w4" and
    w': "w' = (constraint_checks env xa N (1 / 10 ^ 6) (1 / 10 ^ 6) (1 / 10 ^ 3) False w4 pa2)
            \<lparr>heap := heap w4 @ [heap w4 ! pa2]\<rparr>"
    by (rule iteration_InrE)
  have s1: "func_calls (self w1) = func_calls (self w)" "num_iter (self w1) = num_iter (self w)"
    using gradient_step_effect(3) [OF gs] by simp_all
  have s2: "self w2 = self w1" using pr by (rule project_Inr_log(3))
  note a = account_Inr_effect [OF ac]
  have s4: "self w4 = self w3" using re by (rule report_Inr_effect(2))
  have s5: "self w' = self w4" using w' by (simp add: constraint_checks_effect)
  show "func_calls (self w') = func_calls (self w) + 1"
    using s1 s2 a(4) s4 s5 by simp
  show "nl' = Some (num_iter (self w') - num_iter (self w))"
    using s1 s2 a(1,4) s4 s5 by simp
qed

lemma iteration_reported:
  assumes run: "iteration env xa y N bs t w pa nl = Inr (w', pa', nl')"
    and gs: "gradient_step env xa y w pa = (w1, scores, loss)"
  shows "capacity_proj_mod (self w) = - 1 \<Longrightarrow>
           nl' = Some (snd (dual_projection env (heap w1 ! pa) (heap w1 ! xa) (cost (self w))
                  (map (\<lambda>m. eps (self w) * m) N) (dual_max_iter (self w))
                  (grad_tol (self w)) (int_tol (self w))))"
    and "capacity_proj_mod (self w) \<noteq> - 1 \<Longrightarrow>
           (int t + 1) mod capacity_proj_mod (self w) = 0 \<Longrightarrow> nl' = Some 3000"
proof -
  from run obtain v1 sc lo w2 pa2 where
    gs': "gradient_step env xa y w pa = (v1, sc, lo)" and
    pr: "project env xa N t v1 pa nl = Inr (w2, pa2, nl')"
    by (rule iteration_InrE)
  have v1: "v1 = w1" using gs gs' by simp
  have s: "self w1 = (self w)\<lparr>lst_loss := lst_loss (self w) @ [loss],
            lst_acc := lst_acc (self w) @
              [int (length (filter (\<lambda>(row, label). argmax env row = label) (zip scores y)))]\<rparr>"
    using gradient_step_effect(3) [OF gs] .
  show "nl' = Some (snd (dual_projection env (heap w1 ! pa) (heap w1 ! xa) (cost (self w))
                  (map (\<lambda>m. eps (self w) * m) N) (dual_max_iter (self w))
                  (grad_tol (self w)) (int_tol (self w))))"
    if "capacity_proj_mod (self w) = - 1"
    using that pr s unfolding v1
    by (auto simp: project_def Let_def split: prod.splits)
  show "nl' = Some 3000"
    if "capacity_proj_mod (self w) \<noteq> - 1" "(int t + 1) mod capacity_proj_mod (self w) = 0"
    using that pr s unfolding v1
    by (auto simp: project_def Let_def split: prod.splits if_splits)
qed

lemma loop_func_calls:
  assumes "loop env xa y N bs ts w pa nl = Inr (w', pa', nl')"
  shows "func_calls (self w') = func_calls (self w) + int (length ts)"
  using assms
proof (induction ts arbitrary: w pa nl)
  case Nil
  then show ?case by simp
next
  case (Cons t ts)
  from Cons.prems obtain w1 pa1 nl1 where
    i: "iteration env xa y N bs t w pa nl = Inr (w1, pa1, nl1)" and
    l: "loop env xa y N bs ts w1 pa1 nl1 = Inr (w', pa', nl')"
    by (auto split: sum.splits)
  have "func_calls (self w') = func_calls (self w1) + int (length ts)"
    using l by (rule Cons.IH)
  also have "func_calls (self w1) = func_calls (self w) + 1"
    using i by (rule iteration_counters(1))
  finally show ?case by simp
qed

lemma finish_result:
  assumes "finish env xa N w pa = (img, w', pa')"
  shows "self w' = self w \<and>
         img = (if clipping (self w')
                then clamp (clip_min (self w')) (clip_max (self w'))
                       (coupling2adversarial env (wasserstein_attack.truncate (self w'))
                          (heap w' ! pa') (heap w' ! xa))
                else coupling2adversarial env (wasserstein_attack.truncate (self w'))
                       (heap w' ! pa') (heap w' ! xa))"
  using assms
proof (cases rule: finish_cases)
  case (1 w2 adv)
  note fc = final_check_effect [OF 1(1)]
  show ?thesis using 1(3,4,5) fc(1,2,3) by simp
next
  case (2 w2 adv adv3)
  note fc = final_check_effect [OF 2(1)]
  obtain h pa2 where pl: "place (heap w2) pa xa
      (dual_capacity_constrained_projection env (heap w2 ! pa) (heap w2 ! xa) (cost (self w2))
         (map (\<lambda>m. eps (self w2) * m) N) (forward_idx (self w2)) (backward_idx (self w2))
         (coupling2adversarial env (wasserstein_attack.truncate (self w2)))) = (h, pa2)"
    by (cases "place (heap w2) pa xa
      (dual_capacity_constrained_projection env (heap w2 ! pa) (heap w2 ! xa) (cost (self w2))
         (map (\<lambda>m. eps (self w2) * m) N) (forward_idx (self w2)) (backward_idx (self w2))
         (coupling2adversarial env (wasserstein_attack.truncate (self w2))))")
  note pp = post_processing_effect [OF pl 2(3)]
  show ?thesis using 2(4) pp(1,2,3,4) fc(2) by simp
qed

text \<open>
  C8. An iteration that completes increments \<open>func_calls\<close> by one and adds to
  \<open>self.num_iter\<close> the value of the local \<open>num_iter\<close>: with \<open>capacity_proj_mod = -1\<close> the
  count that \<open>dual_projection\<close> reported for the coupling the gradient step left, and on
  the capacity branch the constant 3000. Over a call that returns, \<open>func_calls\<close> grows
  by the number of iterations, which is \<open>nb_iter\<close> (none for a negative \<open>nb_iter\<close>, for
  which \<open>range\<close> is empty).
\<close>

theorem counters_accumulate:
  "(iteration env xa y N bs t w pa nl = Inr (w', pa', nl') \<longrightarrow>
      func_calls (self w') = func_calls (self w) + 1 \<and>
      nl' = Some (num_iter (self w') - num_iter (self w)) \<and>
      (capacity_proj_mod (self w) = - 1 \<longrightarrow>
         nl' = Some (snd (dual_projection env
                  (heap (fst (gradient_step env xa y w pa)) ! pa)
                  (heap (fst (gradient_step env xa y w pa)) ! xa) (cost (self w))
                  (map (\<lambda>m. eps (self w) * m) N) (dual_max_iter (self w))
                  (grad_tol (self w)) (int_tol (self w))))) \<and>
      (capacity_proj_mod (self w) \<noteq> - 1 \<and> (int t + 1) mod capacity_proj_mod (self w) = 0 \<longrightarrow>
         nl' = Some 3000 \<and> num_iter (self w') = num_iter (self w) + 3000)) \<and>
   (perturb env u xa y = Inr (img, u', pc) \<and> xa < length (heap u) \<longrightarrow>
      func_calls (self u') = func_calls (self u) + max 0 (nb_iter (self u)))"
proof (intro conjI impI)
  assume run: "iteration env xa y N bs t w pa nl = Inr (w', pa', nl')"
  show "func_calls (self w') = func_calls (self w) + 1"
    using run by (rule iteration_counters(1))
  show n: "nl' = Some (num_iter (self w') - num_iter (self w))"
    using run by (rule iteration_counters(2))
  obtain w1 scores loss where gs: "gradient_step env xa y w pa = (w1, scores, loss)"
    by (cases "gradient_step env xa y w pa")
  show "nl' = Some (snd (dual_projection env
                  (heap (fst (gradient_step env xa y w pa)) ! pa)
                  (heap (fst (gradient_step env xa y w pa)) ! xa) (cost (self w))
                  (map (\<lambda>m. eps (self w) * m) N) (dual_max_iter (self w))
                  (grad_tol (self w)) (int_tol (self w))))"
    if "capacity_proj_mod (self w) = - 1"
    using iteration_reported(1) [OF run gs that] gs by simp
  show c: "nl' = Some 3000"
    if "capacity_proj_mod (self w) \<noteq> - 1 \<and> (int t + 1) mod capacity_proj_mod (self w) = 0"
    using iteration_reported(2) [OF run gs] that by simp
  show "num_iter (self w') = num_iter (self w) + 3000"
    if "capacity_proj_mod (self w) \<noteq> - 1 \<and> (int t + 1) mod capacity_proj_mod (self w) = 0"
    using c [OF that] n by simp
next
  assume "perturb env u xa y = Inr (img, u', pc) \<and> xa < length (heap u)"
  then have run: "perturb env u xa y = Inr (img, u', pc)" and xa: "xa < length (heap u)"
    by simp_all
  from run xa obtain w1 w2 pa2 nl2 where
    f0: "func_calls (self w1) = func_calls (self u)" and
    l: "loop env xa y (sum_dims_123 (heap u ! xa)) (length (heap u ! xa))
       [0..<nat (nb_iter (self u))] w1 (length (heap u)) None = Inr (w2, pa2, nl2)" and
    f: "finish env xa (sum_dims_123 (heap u ! xa)) w2 pa2 = (img, u', pc)"
    by (rule perturb_InrE)
  have "func_calls (self u') = func_calls (self w2)"
    using finish_result [OF f] by simp
  also have "\<dots> = func_calls (self w1) + int (length [0..<nat (nb_iter (self u))])"
    using l by (rule loop_func_calls)
  also have "\<dots> = func_calls (self u) + max 0 (nb_iter (self u))"
    using f0 by simp
  finally show "func_calls (self u') = func_calls (self u) + max 0 (nb_iter (self u))" .
qed

text \<open>
  One iteration on each branch, and a call of two iterations, in the concrete setting.
\<close>

theorem counters_accumulate_witness:
  "(case iteration demo_env 0 [0] [4] 1 0 (demo_loop_world False False) 1 None of
      Inl e \<Rightarrow> False
    | Inr (w', pa', nl') \<Rightarrow>
        func_calls (self w') = 1 \<and> nl' = Some 7 \<and> num_iter (self w') = 7) \<and>
   (case iteration demo_env 0 [0] [4] 1 0 demo_capacity_world 1 None of
      Inl e \<Rightarrow> False
    | Inr (w', pa', nl') \<Rightarrow>
        func_calls (self w') = 1 \<and> nl' = Some 3000 \<and> num_iter (self w') = 3000) \<and>
   (case perturb demo_env (demo_world 2 (- 1) False False) 0 [0] of
      Inl e \<Rightarrow> False
    | Inr (img, u', pc) \<Rightarrow> func_calls (self u') = 2)"
proof -
  let ?W = "demo_loop_world False False"
  define r where "r = iteration demo_env 0 [0] [4] 1 0 ?W 1 None"
  have "case r of Inl e \<Rightarrow> False | Inr (w', pa', nl') \<Rightarrow> pa' = 4"
    unfolding r_def by (simp add: demo_loop_defs perturb_defs)
  then obtain w' pa' nl' where r: "r = Inr (w', pa', nl')"
    by (auto split: sum.splits)
  define q where "q = iteration demo_env 0 [0] [4] 1 0 demo_capacity_world 1 None"
  have "case q of Inl e \<Rightarrow> False | Inr (w', pa', nl') \<Rightarrow> pa' = 3"
    unfolding q_def by (simp add: demo_capacity_world_def demo_defs perturb_defs)
  then obtain v' pb' ml' where q: "q = Inr (v', pb', ml')"
    by (auto split: sum.splits)
  define p where "p = perturb demo_env (demo_world 2 (- 1) False False) 0 [0]"
  have "case p of Inl e \<Rightarrow> False | Inr (img, u', pc) \<Rightarrow> pc = 7"
    unfolding p_def by (simp add: demo_defs perturb_defs upt_two)
  then obtain img u' pc where p: "p = Inr (img, u', pc)"
    by (auto split: sum.splits)
  have W: "func_calls (self ?W) = 0" "num_iter (self ?W) = 0"
    "capacity_proj_mod (self ?W) = - 1"
    "func_calls (self demo_capacity_world) = 0" "num_iter (self demo_capacity_world) = 0"
    "capacity_proj_mod (self demo_capacity_world) = 1"
    "func_calls (self (demo_world 2 (- 1) False False)) = 0"
    "nb_iter (self (demo_world 2 (- 1) False False)) = 2"
    "(0::nat) < length (heap (demo_world 2 (- 1) False False))"
    "dual_projection demo_env = (\<lambda>p X c b m g i. (Fresh (clamp 0 3 p), 7))"
    by (simp_all add: demo_loop_defs demo_capacity_world_def)
  note t1 = counters_accumulate
    [of demo_env 0 "[0]" "[4]" 1 0 ?W 1 None w' pa' nl'
        "demo_world 2 (- 1) False False" img u' pc]
  note t2 = counters_accumulate
    [of demo_env 0 "[0]" "[4]" 1 0 demo_capacity_world 1 None v' pb' ml'
        "demo_world 2 (- 1) False False" img u' pc]
  have c1: "func_calls (self w') = 1 \<and> nl' = Some 7 \<and> num_iter (self w') = 7"
    using t1 r W(1,2,3,10) unfolding r_def by auto
  have c2: "func_calls (self v') = 1 \<and> ml' = Some 3000 \<and> num_iter (self v') = 3000"
    using t2 q W(4,5,6) unfolding q_def by auto
  have c3: "func_calls (self u') = 2"
    using t1 p W(7,8,9) unfolding p_def by simp
  show ?thesis
    using c1 c2 c3 r q p unfolding r_def q_def p_def by simp
qed

section \<open>The returned image\<close>

lemma finish_coupling:
  assumes run: "finish env xa N v pb = (im, v', pb')"
    and wf: "xa < length (heap v)" "pb < length (heap v)" "pb \<noteq> xa"
  shows "\<not> postprocess (self v) \<Longrightarrow>
           heap v' ! pb' = heap v ! pb \<and> filter is_projection (new_events v v') = []"
    and "postprocess (self v) \<Longrightarrow>
           heap v' ! pb' = returned_value (heap v ! xa)
             (dual_capacity_constrained_projection env (heap v ! pb) (heap v ! xa)
                (cost (self v)) (map (\<lambda>m. eps (self v) * m) N)
                (forward_idx (self v)) (backward_idx (self v))
                (coupling2adversarial env (wasserstein_attack.truncate (self v)))) \<and>
           filter is_projection (take 5 (new_events v v')) = [] \<and>
           filter is_projection (new_events v v') =
             [CapacityProjection (heap v ! pb) (heap v ! xa) (cost (self v))
                (map (\<lambda>m. eps (self v) * m) N) (forward_idx (self v)) (backward_idx (self v))]"
proof -
  show "heap v' ! pb' = heap v ! pb \<and> filter is_projection (new_events v v') = []"
    if np: "\<not> postprocess (self v)"
    using run
  proof (cases rule: finish_cases)
    case (1 w2 adv)
    note fc = final_check_effect [OF 1(1)]
    show ?thesis
      unfolding new_events_def 1(3,4) fc(1) fc(4) by simp
  next
    case (2 w2 adv adv3)
    with np show ?thesis by simp
  qed
  show "heap v' ! pb' = returned_value (heap v ! xa)
             (dual_capacity_constrained_projection env (heap v ! pb) (heap v ! xa)
                (cost (self v)) (map (\<lambda>m. eps (self v) * m) N)
                (forward_idx (self v)) (backward_idx (self v))
                (coupling2adversarial env (wasserstein_attack.truncate (self v)))) \<and>
           filter is_projection (take 5 (new_events v v')) = [] \<and>
           filter is_projection (new_events v v') =
             [CapacityProjection (heap v ! pb) (heap v ! xa) (cost (self v))
                (map (\<lambda>m. eps (self v) * m) N) (forward_idx (self v)) (backward_idx (self v))]"
    if p: "postprocess (self v)"
    using run
  proof (cases rule: finish_cases)
    case (1 w2 adv)
    with p show ?thesis by simp
  next
    case (2 w2 adv adv3)
    note fc = final_check_effect [OF 2(1)]
    let ?r = "dual_capacity_constrained_projection env (heap w2 ! pb) (heap w2 ! xa)
         (cost (self w2)) (map (\<lambda>m. eps (self w2) * m) N) (forward_idx (self w2))
         (backward_idx (self w2)) (coupling2adversarial env (wasserstein_attack.truncate (self w2)))"
    obtain h pa2 where pl: "place (heap w2) pb xa ?r = (h, pa2)"
      by (cases "place (heap w2) pb xa ?r")
    note pp = post_processing_effect [OF pl 2(3)]
    have wf2: "pb < length (heap w2)" "xa < length (heap w2)"
      using wf fc(1) by simp_all
    have val: "h ! pa2 = returned_value (heap w2 ! xa) ?r"
      using pl wf2 wf(3) by (rule place_value(1))
    have c1: "heap v' ! pb' = returned_value (heap v ! xa)
             (dual_capacity_constrained_projection env (heap v ! pb) (heap v ! xa)
                (cost (self v)) (map (\<lambda>m. eps (self v) * m) N)
                (forward_idx (self v)) (backward_idx (self v))
                (coupling2adversarial env (wasserstein_attack.truncate (self v))))"
      using val pp(1,2) fc(1,2) by simp
    have c2: "filter is_projection (take 5 (new_events v v')) = []"
      unfolding finish_log [OF run] by (simp add: logged_checks_def)
    have c3: "filter is_projection (new_events v v') =
             [CapacityProjection (heap v ! pb) (heap v ! xa) (cost (self v))
                (map (\<lambda>m. eps (self v) * m) N) (forward_idx (self v)) (backward_idx (self v))]"
      unfolding new_events_def pp(5) fc(4) using fc(1,2) by simp
    from c1 c2 c3 show ?thesis by simp
  qed
qed

text \<open>
  C7. A call that returns hands back the decode, by \<open>coupling2adversarial\<close> with the
  image \<open>X\<close> (which holds its entry value), of the coupling \<open>pi\<close> is bound to at the
  \<open>return\<close>: clamped to \<open>[clip_min, clip_max]\<close> when \<open>self.clipping\<close> is set, and as it is
  otherwise. With \<open>postprocess\<close> that coupling is what one call of the capacity-constrained
  projection returned for the coupling the loop left, and that call, the only
  projection after the loop, comes after the five calls of the final checks; without
  \<open>postprocess\<close> it is the coupling the loop left and nothing is projected after the loop.
\<close>

theorem perturb_returns_the_decode:
  "(perturb env w xa y = Inr (img, w', pa') \<and> xa < length (heap w) \<longrightarrow>
      img = (if clipping (self w)
             then clamp (clip_min (self w)) (clip_max (self w))
                    (coupling2adversarial env (wasserstein_attack.truncate (self w'))
                       (heap w' ! pa') (heap w' ! xa))
             else coupling2adversarial env (wasserstein_attack.truncate (self w'))
                    (heap w' ! pa') (heap w' ! xa)) \<and>
      heap w' ! xa = heap w ! xa) \<and>
   (finish env xa N v pb = (im, v', pb') \<and>
      xa < length (heap v) \<and> pb < length (heap v) \<and> pb \<noteq> xa \<longrightarrow>
      (if postprocess (self v)
       then heap v' ! pb' = returned_value (heap v ! xa)
              (dual_capacity_constrained_projection env (heap v ! pb) (heap v ! xa)
                 (cost (self v)) (map (\<lambda>m. eps (self v) * m) N)
                 (forward_idx (self v)) (backward_idx (self v))
                 (coupling2adversarial env (wasserstein_attack.truncate (self v)))) \<and>
            filter is_projection (take 5 (new_events v v')) = [] \<and>
            filter is_projection (new_events v v') =
              [CapacityProjection (heap v ! pb) (heap v ! xa) (cost (self v))
                 (map (\<lambda>m. eps (self v) * m) N) (forward_idx (self v)) (backward_idx (self v))]
       else heap v' ! pb' = heap v ! pb \<and> filter is_projection (new_events v v') = []))"
proof (intro conjI impI)
  assume "perturb env w xa y = Inr (img, w', pa') \<and> xa < length (heap w)"
  then have run: "perturb env w xa y = Inr (img, w', pa')" and xa: "xa < length (heap w)"
    by simp_all
  from run xa obtain w1 w2 pa2 nl2 where
    f: "finish env xa (sum_dims_123 (heap w ! xa)) w2 pa2 = (img, w', pa')" and
    k: "keeps_image (length (heap w)) (heap w ! xa) (eps (self w)) w w2"
    by (rule perturb_InrE)
  have s: "settings (self w') = settings (self w)"
    using finish_result [OF f] keeps_image_settings [OF k] by simp
  note sf = settings_fields [OF s]
  show "img = (if clipping (self w)
             then clamp (clip_min (self w)) (clip_max (self w))
                    (coupling2adversarial env (wasserstein_attack.truncate (self w'))
                       (heap w' ! pa') (heap w' ! xa))
             else coupling2adversarial env (wasserstein_attack.truncate (self w'))
                    (heap w' ! pa') (heap w' ! xa))"
    using finish_result [OF f] sf(2,3,4) by simp
  have "final_world (perturb env w xa y) = w'" using run by simp
  then show "heap w' ! xa = heap w ! xa"
    using keeps_image_image [OF perturb_keeps_image [OF xa] xa, of env y] by simp
next
  assume a: "finish env xa N v pb = (im, v', pb') \<and>
      xa < length (heap v) \<and> pb < length (heap v) \<and> pb \<noteq> xa"
  then have run: "finish env xa N v pb = (im, v', pb')"
    and wf: "xa < length (heap v)" "pb < length (heap v)" "pb \<noteq> xa" by simp_all
  show "if postprocess (self v)
       then heap v' ! pb' = returned_value (heap v ! xa)
              (dual_capacity_constrained_projection env (heap v ! pb) (heap v ! xa)
                 (cost (self v)) (map (\<lambda>m. eps (self v) * m) N)
                 (forward_idx (self v)) (backward_idx (self v))
                 (coupling2adversarial env (wasserstein_attack.truncate (self v)))) \<and>
            filter is_projection (take 5 (new_events v v')) = [] \<and>
            filter is_projection (new_events v v') =
              [CapacityProjection (heap v ! pb) (heap v ! xa) (cost (self v))
                 (map (\<lambda>m. eps (self v) * m) N) (forward_idx (self v)) (backward_idx (self v))]
       else heap v' ! pb' = heap v ! pb \<and> filter is_projection (new_events v v') = []"
    using finish_coupling [OF run wf] by (cases "postprocess (self v)") simp_all
qed

text \<open>
  A call with the last pass and clipping, a call with neither (the image returned leaves
  \<open>[0, 1]\<close>), and the part after the loop with and without the last pass.
\<close>

theorem perturb_returns_the_decode_witness:
  "(case perturb demo_env (demo_world 1 (- 1) True True) 0 [0] of
      Inl e \<Rightarrow> False
    | Inr (img, w', pa') \<Rightarrow> img = [[[[1, 1]]]] \<and> heap w' ! pa' = [[[[1, 3]]]]) \<and>
   (case perturb demo_env (demo_world 1 (- 1) False False) 0 [0] of
      Inl e \<Rightarrow> False
    | Inr (img, w', pa') \<Rightarrow>
        img = [[[[110000001 / 100000001, 3]]]] \<and> heap w' ! pa' = img) \<and>
   (case finish demo_env 0 [4] (demo_loop_world True True) 1 of
      (im, v', pb') \<Rightarrow>
        heap v' ! pb' = [[[[1, 3]]]] \<and>
        filter is_projection (new_events (demo_loop_world True True) v') =
          [CapacityProjection [[[[1, 3]]]] [[[[1, 3]]]] None [2] None None]) \<and>
   (case finish demo_env 0 [4] (demo_loop_world False False) 1 of
      (im, v', pb') \<Rightarrow>
        heap v' ! pb' = [[[[1, 3]]]] \<and>
        filter is_projection (new_events (demo_loop_world False False) v') = [])"
proof -
  let ?A = "demo_world 1 (- 1) True True" and ?B = "demo_world 1 (- 1) False False"
  let ?V = "demo_loop_world True True" and ?U = "demo_loop_world False False"
  define a where "a = perturb demo_env ?A 0 [0]"
  have "case a of Inl e \<Rightarrow> False | Inr (img, w', pa') \<Rightarrow> heap w' ! pa' = [[[[1, 3]]]]"
    unfolding a_def by (simp add: demo_defs perturb_defs)
  then obtain img w' pa' where a: "a = Inr (img, w', pa')"
    and ha: "heap w' ! pa' = [[[[1, 3]]]]"
    by (auto split: sum.splits)
  define b where "b = perturb demo_env ?B 0 [0]"
  have "case b of Inl e \<Rightarrow> False
        | Inr (img, w', pa') \<Rightarrow> heap w' ! pa' = [[[[110000001 / 100000001, 3]]]]"
    unfolding b_def by (simp add: demo_defs perturb_defs)
  then obtain img2 w2 pa2 where b: "b = Inr (img2, w2, pa2)"
    and hb: "heap w2 ! pa2 = [[[[110000001 / 100000001, 3]]]]"
    by (auto split: sum.splits)
  define f where "f = finish demo_env 0 [4] ?V 1"
  obtain im v' pb' where f: "f = (im, v', pb')" by (cases f)
  define g where "g = finish demo_env 0 [4] ?U 1"
  obtain im2 u' pc' where g: "g = (im2, u', pc')" by (cases g)
  have W: "(0::nat) < length (heap ?A)" "(0::nat) < length (heap ?B)"
    "clipping (self ?A)" "\<not> clipping (self ?B)"
    "clip_min (self ?A) = 0" "clip_max (self ?A) = 1"
    "coupling2adversarial demo_env = (\<lambda>s p X. p)"
    "dual_capacity_constrained_projection demo_env = (\<lambda>p X c b f d decode. SameAsX)"
    by (simp_all add: demo_defs)
  have V: "(0::nat) < length (heap ?V)" "(1::nat) < length (heap ?V)"
    "postprocess (self ?V)" "heap ?V ! 0 = [[[[1, 3]]]]" "heap ?V ! 1 = [[[[1, 3]]]]"
    "cost (self ?V) = None" "forward_idx (self ?V) = None" "backward_idx (self ?V) = None"
    "eps (self ?V) = 1 / 2"
    by (simp_all add: demo_loop_defs)
  have U: "(0::nat) < length (heap ?U)" "(1::nat) < length (heap ?U)"
    "\<not> postprocess (self ?U)" "heap ?U ! 1 = [[[[1, 3]]]]"
    by (simp_all add: demo_loop_defs)
  note t1 = perturb_returns_the_decode
    [of demo_env ?A 0 "[0]" img w' pa' "[4]" ?V 1 im v' pb']
  note t2 = perturb_returns_the_decode
    [of demo_env ?B 0 "[0]" img2 w2 pa2 "[4]" ?U 1 im2 u' pc']
  have c1: "img = [[[[1, 1]]]]"
    using t1 a ha W(1,3,5,6,7) unfolding a_def by (simp add: clamp_def)
  have c2: "img2 = [[[[110000001 / 100000001, 3]]]]"
    using t2 b hb W(2,4,7) unfolding b_def by simp
  have c3: "heap v' ! pb' = [[[[1, 3]]]] \<and>
        filter is_projection (new_events ?V v') =
          [CapacityProjection [[[[1, 3]]]] [[[[1, 3]]]] None [2] None None]"
    using t1 f V W(8) unfolding f_def by simp
  have c4: "heap u' ! pc' = [[[[1, 3]]]] \<and> filter is_projection (new_events ?U u') = []"
    using t2 g U unfolding g_def by simp
  show ?thesis
    using c1 c2 c3 c4 a b f g ha hb unfolding a_def b_def f_def g_def by simp
qed

section \<open>The budget and the normalization\<close>





lemma budget_per_element:
  assumes "b = map (\<lambda>el. e * total_mass el) X" and "k < length X"
  shows "b ! k = e * total_mass (X ! k)"
  using assms by simp



section \<open>The image is never written\<close>

text \<open>
  C10. For \<open>X\<close> at an address of the store, whether the call returns or raises: every
  cell the store had at entry, the one of \<open>X\<close> among them, holds at the end what it held
  at entry, so that the in-place updates of the call have gone to cells the call
  allocated itself (the clones that \<open>pi\<close> is bound to, and the gradient buffers); apart
  from its counters and from what \<open>initialize_cost\<close> leaves on it the object is unchanged;
  and every collaborator that takes the image was given the value \<open>X\<close> held at entry.
  This holds also when \<open>initialize_coupling\<close> or a projection hands back the image
  itself, because \<open>pi\<close> is cloned before it is next updated.
\<close>

theorem perturb_never_writes_image:
  assumes "xa < length (heap w)"
  shows "take (length (heap w)) (heap (final_world (perturb env w xa y))) = heap w \<and>
         heap (final_world (perturb env w xa y)) ! xa = heap w ! xa \<and>
         settings (self (final_world (perturb env w xa y))) = settings (self w) \<and>
         list_all (given_image (heap w ! xa))
           (new_events w (final_world (perturb env w xa y)))"
proof -
  let ?w' = "final_world (perturb env w xa y)"
  have k: "keeps_image (length (heap w)) (heap w ! xa) (eps (self w)) w ?w'"
    using assms by (rule perturb_keeps_image)
  then have "take (length (heap w)) (heap ?w') = heap w"
    by (simp add: keeps_image_def)
  moreover have "heap ?w' ! xa = heap w ! xa"
    using k assms by (rule keeps_image_image)
  moreover have "settings (self ?w') = settings (self w)"
    using k by (rule keeps_image_settings)
  moreover have "list_all (given_image (heap w ! xa)) (new_events w ?w')"
  proof (rule list_all_mono)
    show "list_all (from_image (heap w ! xa) (eps (self w))) (new_events w ?w')"
      using k by (simp add: keeps_image_def)
  qed (rule from_image_given)
  ultimately show ?thesis by simp
qed

text \<open>
  One iteration and the last pass, whose projection hands back the image itself: \<open>pi\<close>
  and \<open>X\<close> are one tensor at the return, and the image is still \<open>[[[[1, 3]]]]\<close>.
\<close>

theorem perturb_never_writes_image_witness:
  "(0::nat) < length (heap (demo_world 1 (- 1) True False)) \<and>
   raised_error (perturb demo_env (demo_world 1 (- 1) True False) 0 [0]) = None \<and>
   take 1 (heap (final_world (perturb demo_env (demo_world 1 (- 1) True False) 0 [0]))) =
     [[[[[1, 3]]]]] \<and>
   length (heap (final_world (perturb demo_env (demo_world 1 (- 1) True False) 0 [0]))) = 5 \<and>
   list_all (given_image [[[[1, 3]]]])
     (new_events (demo_world 1 (- 1) True False)
       (final_world (perturb demo_env (demo_world 1 (- 1) True False) 0 [0])))"
proof -
  define r where "r = perturb demo_env (demo_world 1 (- 1) True False) 0 [0]"
  have val: "case r of Inl e \<Rightarrow> False
             | Inr (img, w, pa) \<Rightarrow> length (heap w) = 5"
    unfolding r_def by (simp add: demo_defs perturb_defs)
  have inst: "take (length (heap (demo_world 1 (- 1) True False))) (heap (final_world r)) =
      heap (demo_world 1 (- 1) True False) \<and>
      list_all (given_image (heap (demo_world 1 (- 1) True False) ! 0))
        (new_events (demo_world 1 (- 1) True False) (final_world r))"
    unfolding r_def
    using perturb_never_writes_image [of 0 "demo_world 1 (- 1) True False" demo_env "[0]"]
    by (simp add: demo_world_def)
  have h: "heap (demo_world 1 (- 1) True False) = [[[[[1, 3]]]]]"
    by (simp add: demo_world_def)
  show ?thesis
    using val inst unfolding r_def [symmetric] h
    by (auto split: sum.splits)
qed

end
